theory Spec2Isabelle
  imports Complex_Main "HOL-Library.Multiset"
begin

section \<open>Common notions\<close>

text \<open>
  The engine computes with Python numbers. They are modelled as exact rationals
  (\<open>rat\<close>): every decimal literal of the source is the fraction it denotes
  (\<open>0.90\<close> is \<open>9/10\<close>), and \<open>+\<close>, \<open>-\<close>, \<open>*\<close>, \<open>/\<close> are exact. Dictionaries with a
  fixed set of keys are records; a key whose value may be \<open>None\<close> is an option.
  Every place where the source can raise is a branch that returns \<open>Inl\<close> of the error.
  The savings aggregator is the exception to exact arithmetic: its float operations are
  parameters (see \<open>float_ops\<close>).
\<close>

datatype py_error = KeyError | IndexError | TypeError

text \<open>\<open>str.split(sep)\<close> for a one-character separator: \<open>''''.split('.')\<close> is \<open>['''']\<close>.\<close>

fun split_on :: "char \<Rightarrow> string \<Rightarrow> string list" where
  "split_on c [] = [[]]"
| "split_on c (x # xs) =
     (if x = c then [] # split_on c xs
      else (case split_on c xs of
              [] \<Rightarrow> [[x]]
            | w # ws \<Rightarrow> (x # w) # ws))"

text \<open>\<open>list.index(x)\<close> for an element known to be in the list: the first position.\<close>

fun index_of :: "'a list \<Rightarrow> 'a \<Rightarrow> nat" where
  "index_of [] x = 0"
| "index_of (y # ys) x = (if y = x then 0 else Suc (index_of ys x))"

text \<open>
  \<open>xs.sort(key=k, reverse=True)\<close>: a stable sort, descending in the key. Elements with
  equal keys keep their order, which is what the stable insertion sort on the negated
  key does.
\<close>

definition sort_reverse :: "('a \<Rightarrow> rat) \<Rightarrow> 'a list \<Rightarrow> 'a list" where
  "sort_reverse k xs = sort_key (\<lambda>x. - k x) xs"

section \<open>The analysis records (the recommenders' input)\<close>

text \<open>
  \<open>_get_metric_stats\<close> returns \<open>None\<close> or a dictionary; the recommenders read its keys
  \<open>average\<close>, \<open>p95\<close> and \<open>max\<close>.
\<close>

record cpu_metrics =
  average :: rat
  p95 :: rat
  max_cpu :: rat

record metrics =
  cpu_utilization :: "cpu_metrics option"

record analysis =
  instance_id :: string
  name :: string
  region :: string
  instance_type :: string
  metrics :: metrics
  current_cost :: rat

section \<open>\<open>EC2Recommender\<close>\<close>

text \<open>The three configuration values \<open>__init__\<close> reads from \<open>config['ec2']\<close>.\<close>

record ec2_recommender =
  cpu_threshold :: rat
  min_savings :: rat
  allowed_families :: "string list"

definition instance_sizes :: "string list" where
  "instance_sizes =
     [''nano'', ''micro'', ''small'', ''medium'', ''large'', ''xlarge'',
      ''2xlarge'', ''4xlarge'', ''8xlarge'']"

definition build_pricing_map :: "(string \<times> rat) list" where
  "build_pricing_map =
     [(''t3.nano'', 52 / 10000 * 730),
      (''t3.micro'', 104 / 10000 * 730),
      (''t3.small'', 208 / 10000 * 730),
      (''t3.medium'', 416 / 10000 * 730),
      (''t3.large'', 832 / 10000 * 730),
      (''t3.xlarge'', 1664 / 10000 * 730),
      (''t3.2xlarge'', 3328 / 10000 * 730),
      (''t3a.nano'', 47 / 10000 * 730),
      (''t3a.micro'', 94 / 10000 * 730),
      (''t3a.small'', 188 / 10000 * 730),
      (''t3a.medium'', 376 / 10000 * 730),
      (''t3a.large'', 752 / 10000 * 730),
      (''t3a.xlarge'', 1504 / 10000 * 730),
      (''t3a.2xlarge'', 3008 / 10000 * 730),
      (''m5.large'', 96 / 1000 * 730),
      (''m5.xlarge'', 192 / 1000 * 730),
      (''m5.2xlarge'', 384 / 1000 * 730),
      (''m5.4xlarge'', 768 / 1000 * 730),
      (''m5a.large'', 86 / 1000 * 730),
      (''m5a.xlarge'', 172 / 1000 * 730),
      (''m5a.2xlarge'', 344 / 1000 * 730),
      (''m5a.4xlarge'', 688 / 1000 * 730),
      (''c5.large'', 85 / 1000 * 730),
      (''c5.xlarge'', 17 / 100 * 730),
      (''c5.2xlarge'', 34 / 100 * 730),
      (''c5.4xlarge'', 68 / 100 * 730),
      (''c5a.large'', 77 / 1000 * 730),
      (''c5a.xlarge'', 154 / 1000 * 730),
      (''c5a.2xlarge'', 308 / 1000 * 730),
      (''c5a.4xlarge'', 616 / 1000 * 730),
      (''r5.large'', 126 / 1000 * 730),
      (''r5.xlarge'', 252 / 1000 * 730),
      (''r5.2xlarge'', 504 / 1000 * 730),
      (''r5a.large'', 113 / 1000 * 730),
      (''r5a.xlarge'', 226 / 1000 * 730),
      (''r5a.2xlarge'', 452 / 1000 * 730)]"

definition pricing :: "string \<Rightarrow> rat option" where
  "pricing = map_of build_pricing_map"

definition premium_to_budget :: "string \<Rightarrow> string option" where
  "premium_to_budget =
     map_of [(''m5'', ''m5a''), (''c5'', ''c5a''), (''r5'', ''r5a''), (''t3'', ''t3a'')]"

text \<open>
  The \<open>reason\<close> of a recommendation is an f-string. It is kept as the template with its
  argument: \<open>Downsize_reason p\<close> is
  \<^verbatim>\<open>f'P95 CPU usage is {p:.1f}%, can downsize safely'\<close> and \<open>Family_switch_reason b\<close> is
  \<^verbatim>\<open>f'Switch to AMD-based {b} for same performance at lower cost'\<close>.
\<close>

datatype reason_text = Downsize_reason rat | Family_switch_reason string

record recommendation =
  rec_instance_id :: string
  rec_name :: string
  rec_region :: string
  current_type :: string
  recommended_type :: string
  strategy :: string
  reason :: reason_text
  current_monthly_cost :: rat
  recommended_monthly_cost :: rat
  monthly_savings :: rat
  annual_savings :: rat
  rec_cpu_utilization :: cpu_metrics

text \<open>
  Both strategies read \<open>analysis['metrics']['cpu_utilization']['average']\<close> when they
  build the result; subscripting \<open>None\<close> is a \<open>TypeError\<close>.
\<close>

definition recommend_downsize ::
  "ec2_recommender \<Rightarrow> analysis \<Rightarrow> string \<Rightarrow> string \<Rightarrow> rat \<Rightarrow> rat
     \<Rightarrow> py_error + recommendation option" where
  "recommend_downsize self a family current_size cost p95_cpu =
     (if current_size \<notin> set instance_sizes then Inr None
      else
        let current_index = index_of instance_sizes current_size in
        if current_index = 0 then Inr None
        else
          let recommended_size = instance_sizes ! (current_index - 1);
              recommended_type = family @ ''.'' @ recommended_size;
              recommended_cost =
                (case pricing recommended_type of
                   Some c \<Rightarrow> c
                 | None \<Rightarrow> cost * (5 / 10));
              monthly_savings = cost - recommended_cost
          in
          if monthly_savings < min_savings self then Inr None
          else
            (case cpu_utilization (metrics a) of
               None \<Rightarrow> Inl TypeError
             | Some cpu \<Rightarrow>
                 Inr (Some \<lparr>
                   rec_instance_id = instance_id a,
                   rec_name = name a,
                   rec_region = region a,
                   current_type = family @ ''.'' @ current_size,
                   recommended_type = recommended_type,
                   strategy = ''downsize'',
                   reason = Downsize_reason p95_cpu,
                   current_monthly_cost = cost,
                   recommended_monthly_cost = recommended_cost,
                   monthly_savings = monthly_savings,
                   annual_savings = monthly_savings * 12,
                   rec_cpu_utilization =
                     \<lparr>average = average cpu, p95 = p95_cpu, max_cpu = max_cpu cpu\<rparr>
                 \<rparr>)))"

definition recommend_family_switch ::
  "ec2_recommender \<Rightarrow> analysis \<Rightarrow> string \<Rightarrow> string \<Rightarrow> rat \<Rightarrow> rat
     \<Rightarrow> py_error + recommendation option" where
  "recommend_family_switch self a current_family current_size cost p95_cpu =
     (case premium_to_budget current_family of
        None \<Rightarrow> Inr None
      | Some budget_family \<Rightarrow>
          if budget_family \<notin> set (allowed_families self) then Inr None
          else
            let recommended_type = budget_family @ ''.'' @ current_size;
                recommended_cost = cost * (90 / 100);
                monthly_savings = cost - recommended_cost
            in
            if monthly_savings < min_savings self then Inr None
            else
              (case cpu_utilization (metrics a) of
                 None \<Rightarrow> Inl TypeError
               | Some cpu \<Rightarrow>
                   Inr (Some \<lparr>
                     rec_instance_id = instance_id a,
                     rec_name = name a,
                     rec_region = region a,
                     current_type = current_family @ ''.'' @ current_size,
                     recommended_type = recommended_type,
                     strategy = ''family_switch'',
                     reason = Family_switch_reason budget_family,
                     current_monthly_cost = cost,
                     recommended_monthly_cost = recommended_cost,
                     monthly_savings = monthly_savings,
                     annual_savings = monthly_savings * 12,
                     rec_cpu_utilization =
                       \<lparr>average = average cpu, p95 = p95_cpu, max_cpu = max_cpu cpu\<rparr>
                   \<rparr>)))"

text \<open>
  \<open>if downsize_rec:\<close> and \<open>if family_rec:\<close> test a dictionary that is never empty, so
  each strategy's result is appended exactly when it is not \<open>None\<close>.
\<close>

definition find_better_instance_types ::
  "ec2_recommender \<Rightarrow> analysis \<Rightarrow> string \<Rightarrow> rat \<Rightarrow> py_error + recommendation list" where
  "find_better_instance_types self a cur_type p95_cpu =
     (let cost = current_cost a;
          parts = split_on CHR ''.'' cur_type
      in
      if length parts \<noteq> 2 then Inr []
      else
        let current_family = parts ! 0;
            current_size = parts ! 1
        in
        (case recommend_downsize self a current_family current_size cost p95_cpu of
           Inl e \<Rightarrow> Inl e
         | Inr downsize_rec \<Rightarrow>
             (case recommend_family_switch self a current_family current_size cost p95_cpu of
                Inl e \<Rightarrow> Inl e
              | Inr family_rec \<Rightarrow>
                  Inr ((case downsize_rec of None \<Rightarrow> [] | Some r \<Rightarrow> [r])
                       @ (case family_rec of None \<Rightarrow> [] | Some r \<Rightarrow> [r])))))"

text \<open>
  The loop of \<open>generate_recommendations\<close>, with the list built so far as accumulator.
  \<open>if not cpu_metrics: continue\<close> skips a resource whose CPU series is \<open>None\<close>.
\<close>

fun ec2_loop ::
  "ec2_recommender \<Rightarrow> analysis list \<Rightarrow> recommendation list
     \<Rightarrow> py_error + recommendation list" where
  "ec2_loop self [] recommendations = Inr recommendations"
| "ec2_loop self (a # rest) recommendations =
     (case cpu_utilization (metrics a) of
        None \<Rightarrow> ec2_loop self rest recommendations
      | Some cpu_m \<Rightarrow>
          if p95 cpu_m < cpu_threshold self then
            (case find_better_instance_types self a (instance_type a) (p95 cpu_m) of
               Inl e \<Rightarrow> Inl e
             | Inr recs \<Rightarrow> ec2_loop self rest (recommendations @ recs))
          else ec2_loop self rest recommendations)"

definition generate_recommendations ::
  "ec2_recommender \<Rightarrow> analysis list \<Rightarrow> py_error + recommendation list" where
  "generate_recommendations self analysis_results =
     (case ec2_loop self analysis_results [] of
        Inl e \<Rightarrow> Inl e
      | Inr recommendations \<Rightarrow> Inr (sort_reverse monthly_savings recommendations))"

section \<open>\<open>ReservedInstanceRecommender\<close>\<close>

record ri_recommender =
  min_utilization :: rat
  term_years :: int
  payment_option :: string

definition discount_rates :: "int \<Rightarrow> (string \<Rightarrow> rat option) option" where
  "discount_rates =
     map_of
       [(1, map_of [(''all_upfront'', 40 / 100),
                    (''partial_upfront'', 35 / 100),
                    (''no_upfront'', 30 / 100)]),
        (3, map_of [(''all_upfront'', 60 / 100),
                    (''partial_upfront'', 55 / 100),
                    (''no_upfront'', 50 / 100)])]"

text \<open>An entry of a recommendation's \<open>instances\<close> list.\<close>

record ri_member =
  member_instance_id :: string
  member_name :: string

record ri_recommendation =
  ri_region :: string
  ri_instance_type :: string
  instance_count :: nat
  ri_term_years :: int
  ri_payment_option :: string
  ri_current_monthly_cost :: rat
  ri_monthly_cost :: rat
  ri_monthly_savings :: rat
  ri_annual_savings :: rat
  total_savings_over_term :: rat
  upfront_payment :: rat
  discount_rate :: rat
  instances :: "ri_member list"

text \<open>
  \<open>groups[key].append(analysis)\<close> on a \<open>defaultdict(list)\<close>: a new key goes to the end
  of the dictionary, an old key keeps its place and its list grows at the end.
\<close>

fun group_append ::
  "'k \<Rightarrow> 'v \<Rightarrow> ('k \<times> 'v list) list \<Rightarrow> ('k \<times> 'v list) list" where
  "group_append key v [] = [(key, [v])]"
| "group_append key v ((k, vs) # groups) =
     (if k = key then (k, vs @ [v]) # groups else (k, vs) # group_append key v groups)"

definition group_instances ::
  "analysis list \<Rightarrow> ((string \<times> string) \<times> analysis list) list" where
  "group_instances analysis_results =
     foldl (\<lambda>groups a. group_append (region a, instance_type a) a groups) [] analysis_results"

definition calculate_upfront_payment :: "ri_recommender \<Rightarrow> rat \<Rightarrow> rat \<Rightarrow> rat" where
  "calculate_upfront_payment self monthly_cost rate =
     (let annual_cost = monthly_cost * 12;
          term_cost = annual_cost * of_int (term_years self);
          ri_term_cost = term_cost * (1 - rate)
      in
      if payment_option self = ''all_upfront'' then ri_term_cost
      else if payment_option self = ''partial_upfront'' then ri_term_cost * (5 / 10)
      else 0)"

text \<open>
  \<open>self.discount_rates[self.term_years][self.payment_option]\<close> raises \<open>KeyError\<close> for a
  term or a payment option that the table does not have.
\<close>

definition create_ri_recommendation ::
  "ri_recommender \<Rightarrow> string \<Rightarrow> string \<Rightarrow> analysis list \<Rightarrow> py_error + ri_recommendation" where
  "create_ri_recommendation self reg ty insts =
     (let count = length insts;
          total_monthly_cost = sum_list (map current_cost insts)
      in
      case discount_rates (term_years self) of
        None \<Rightarrow> Inl KeyError
      | Some by_option \<Rightarrow>
          (case by_option (payment_option self) of
             None \<Rightarrow> Inl KeyError
           | Some rate \<Rightarrow>
               let ri_cost = total_monthly_cost * (1 - rate);
                   monthly = total_monthly_cost - ri_cost;
                   annual = monthly * 12;
                   total_savings = annual * of_int (term_years self);
                   upfront = calculate_upfront_payment self total_monthly_cost rate
               in
               Inr \<lparr>
                 ri_region = reg,
                 ri_instance_type = ty,
                 instance_count = count,
                 ri_term_years = term_years self,
                 ri_payment_option = payment_option self,
                 ri_current_monthly_cost = total_monthly_cost,
                 ri_monthly_cost = ri_cost,
                 ri_monthly_savings = monthly,
                 ri_annual_savings = annual,
                 total_savings_over_term = total_savings,
                 upfront_payment = upfront,
                 discount_rate = rate * 100,
                 instances =
                   map (\<lambda>inst. \<lparr>member_instance_id = instance_id inst,
                                 member_name = name inst\<rparr>) insts
               \<rparr>))"

text \<open>
  The loop over \<open>instance_groups.items()\<close>. \<open>if rec:\<close> tests a dictionary that is never
  empty.
\<close>

fun ri_loop ::
  "ri_recommender \<Rightarrow> ((string \<times> string) \<times> analysis list) list \<Rightarrow> ri_recommendation list
     \<Rightarrow> py_error + ri_recommendation list" where
  "ri_loop self [] recommendations = Inr recommendations"
| "ri_loop self ((key, insts) # rest) recommendations =
     (if length insts > 0 then
        (case create_ri_recommendation self (fst key) (snd key) insts of
           Inl e \<Rightarrow> Inl e
         | Inr r \<Rightarrow> ri_loop self rest (recommendations @ [r]))
      else ri_loop self rest recommendations)"

definition ri_generate_recommendations ::
  "ri_recommender \<Rightarrow> analysis list \<Rightarrow> py_error + ri_recommendation list" where
  "ri_generate_recommendations self analysis_results =
     (case ri_loop self (group_instances analysis_results) [] of
        Inl e \<Rightarrow> Inl e
      | Inr recommendations \<Rightarrow> Inr (sort_reverse ri_annual_savings recommendations))"

section \<open>\<open>CostOptimizer\<close>\<close>

record savings_part =
  part_count :: nat
  part_monthly_savings :: rat
  part_annual_savings :: rat

record savings_total =
  total_monthly_savings :: rat
  total_annual_savings :: rat

record savings_summary =
  ec2_rightsizing :: savings_part
  reserved_instances :: savings_part
  total :: savings_total

text \<open>
  \<open>calculate_total_savings\<close> adds up the savings of many recommendations in floating
  point, where addition is not associative and \<open>sum\<close> itself depends on the interpreter
  (plain left-to-right addition, or compensated summation in newer versions). Its three
  float operations are therefore parameters, with nothing assumed of them: \<open>fl_sum\<close> is
  the builtin \<open>sum\<close> on a list of floats, \<open>fl_add\<close> is \<open>+\<close> and \<open>fl_mul\<close> is \<open>*\<close>.
\<close>

record float_ops =
  fl_sum :: "rat list \<Rightarrow> rat"
  fl_add :: "rat \<Rightarrow> rat \<Rightarrow> rat"
  fl_mul :: "rat \<Rightarrow> rat \<Rightarrow> rat"

definition calculate_total_savings ::
  "float_ops \<Rightarrow> recommendation list \<Rightarrow> ri_recommendation list \<Rightarrow> savings_summary" where
  "calculate_total_savings fl ec2_recommendations ri_recommendations =
     (let ec2_monthly_savings = fl_sum fl (map monthly_savings ec2_recommendations);
          ec2_annual_savings = fl_mul fl ec2_monthly_savings 12;
          ri_monthly = fl_sum fl (map ri_monthly_savings ri_recommendations);
          ri_annual = fl_sum fl (map ri_annual_savings ri_recommendations);
          total_monthly = fl_add fl ec2_monthly_savings ri_monthly;
          total_annual = fl_add fl ec2_annual_savings ri_annual
      in
      \<lparr>ec2_rightsizing =
         \<lparr>part_count = length ec2_recommendations,
          part_monthly_savings = ec2_monthly_savings,
          part_annual_savings = ec2_annual_savings\<rparr>,
       reserved_instances =
         \<lparr>part_count = length ri_recommendations,
          part_monthly_savings = ri_monthly,
          part_annual_savings = ri_annual\<rparr>,
       total =
         \<lparr>total_monthly_savings = total_monthly,
          total_annual_savings = total_annual\<rparr>\<rparr>)"

text \<open>
  \<open>no_rounding fl ec2 ri\<close>: each of the six float operations that
  \<open>calculate_total_savings\<close> performs on these two lists returns the exact result.
\<close>

definition no_rounding ::
  "float_ops \<Rightarrow> recommendation list \<Rightarrow> ri_recommendation list \<Rightarrow> bool" where
  "no_rounding fl ec2 ri =
     (let m = sum_list (map monthly_savings ec2);
          rm = sum_list (map ri_monthly_savings ri);
          ra = sum_list (map ri_annual_savings ri)
      in fl_sum fl (map monthly_savings ec2) = m
       \<and> fl_sum fl (map ri_monthly_savings ri) = rm
       \<and> fl_sum fl (map ri_annual_savings ri) = ra
       \<and> fl_mul fl m 12 = m * 12
       \<and> fl_add fl m rm = m + rm
       \<and> fl_add fl (m * 12) ra = m * 12 + ra)"

text \<open>
  The float operations where nothing is rounded. On the small whole numbers of the
  examples below every intermediate result is a float, so there they are what the
  interpreter computes.
\<close>

definition exact_ops :: float_ops where
  "exact_ops = \<lparr>fl_sum = sum_list, fl_add = (+), fl_mul = (*)\<rparr>"

text \<open>
  The dictionaries of the stats keep their insertion order; they are association lists
  with at most one entry per key. \<open>add_count k n d\<close> is
  \<^verbatim>\<open>if k not in d: d[k] = 0\<close> followed by \<^verbatim>\<open>d[k] += n\<close>, and \<open>dict_set k v d\<close> is
  \<^verbatim>\<open>d[k] = v\<close>.
\<close>

fun add_count :: "string \<Rightarrow> nat \<Rightarrow> (string \<times> nat) list \<Rightarrow> (string \<times> nat) list" where
  "add_count k n [] = [(k, 0 + n)]"
| "add_count k n ((k', v) # d) =
     (if k' = k then (k', v + n) # d else (k', v) # add_count k n d)"

fun dict_set :: "string \<Rightarrow> nat \<Rightarrow> (string \<times> nat) list \<Rightarrow> (string \<times> nat) list" where
  "dict_set k v [] = [(k, v)]"
| "dict_set k v ((k', v') # d) =
     (if k' = k then (k', v) # d else (k', v') # dict_set k v d)"

record stats =
  total_recommendations :: nat
  by_strategy :: "(string \<times> nat) list"
  by_region :: "(string \<times> nat) list"

definition get_summary_stats ::
  "recommendation list \<Rightarrow> ri_recommendation list \<Rightarrow> stats" where
  "get_summary_stats ec2_recommendations ri_recommendations =
     (let strategies = foldl (\<lambda>d r. add_count (strategy r) 1 d) [] ec2_recommendations;
          strategies' =
            (if ri_recommendations \<noteq> []
             then dict_set ''reserved_instances'' (length ri_recommendations) strategies
             else strategies);
          regions = foldl (\<lambda>d r. add_count (rec_region r) 1 d) [] ec2_recommendations;
          regions' =
            foldl (\<lambda>d r. add_count (ri_region r) (length (instances r)) d)
              regions ri_recommendations
      in
      \<lparr>total_recommendations = length ec2_recommendations + length ri_recommendations,
       by_strategy = strategies',
       by_region = regions'\<rparr>)"

section \<open>\<open>_percentile\<close> of the analyzers\<close>

text \<open>
  \<open>EC2Analyzer._percentile\<close> and \<open>RDSAnalyzer._percentile\<close> have the same body.
  \<open>int(x)\<close> truncates towards zero; \<open>xs[i]\<close> counts a negative index from the end and
  raises \<open>IndexError\<close> out of range.
\<close>

definition py_int :: "rat \<Rightarrow> int" where
  "py_int q = (if 0 \<le> q then \<lfloor>q\<rfloor> else \<lceil>q\<rceil>)"

definition py_getitem :: "'a list \<Rightarrow> int \<Rightarrow> py_error + 'a" where
  "py_getitem xs i =
     (if 0 \<le> i \<and> i < int (length xs) then Inr (xs ! nat i)
      else if i < 0 \<and> - int (length xs) \<le> i then Inr (xs ! nat (int (length xs) + i))
      else Inl IndexError)"

definition percentile :: "rat list \<Rightarrow> rat \<Rightarrow> py_error + rat" where
  "percentile data p =
     (if data = [] then Inr 0
      else
        let sorted_data = sort data;
            index = (of_nat (length sorted_data) - 1) * p / 100;
            floor_index = py_int index;
            ceil_index = floor_index + 1
        in
        if ceil_index \<ge> int (length sorted_data) then py_getitem sorted_data floor_index
        else
          (case py_getitem sorted_data floor_index of
             Inl e \<Rightarrow> Inl e
           | Inr lo \<Rightarrow>
               (case py_getitem sorted_data ceil_index of
                  Inl e \<Rightarrow> Inl e
                | Inr hi \<Rightarrow> Inr (lo + (index - of_int floor_index) * (hi - lo)))))"

text \<open>
  The percentile as the specification words it: for the sorted values \<open>v[0..n-1]\<close> and
  \<open>i = (n-1)*p/100\<close>, the value \<open>v[floor(i)] + (i - floor(i)) * (v[ceil(i)] - v[floor(i)])\<close>,
  and \<open>v[floor(i)]\<close> when \<open>ceil(i) \<ge> n\<close>.
\<close>

definition spec_percentile :: "rat list \<Rightarrow> rat \<Rightarrow> rat" where
  "spec_percentile data p =
     (let v = sort data;
          n = length v;
          i = (of_nat n - 1) * p / 100
      in
      if \<lceil>i\<rceil> \<ge> int n then v ! nat \<lfloor>i\<rfloor>
      else v ! nat \<lfloor>i\<rfloor> + (i - of_int \<lfloor>i\<rfloor>) * (v ! nat \<lceil>i\<rceil> - v ! nat \<lfloor>i\<rfloor>))"

section \<open>Example inputs\<close>

definition example_recommender :: ec2_recommender where
  "example_recommender =
     \<lparr>cpu_threshold = 40, min_savings = 10, allowed_families = [''t3a'', ''m5a'']\<rparr>"

definition example_analysis ::
  "string \<Rightarrow> string \<Rightarrow> rat \<Rightarrow> cpu_metrics option \<Rightarrow> analysis" where
  "example_analysis ident ty cost cpu =
     \<lparr>instance_id = ident, name = ''web'', region = ''us-east-1'', instance_type = ty,
      metrics = \<lparr>cpu_utilization = cpu\<rparr>, current_cost = cost\<rparr>"

definition idle_cpu :: cpu_metrics where
  "idle_cpu = \<lparr>average = 5, p95 = 10, max_cpu = 20\<rparr>"

definition busy_cpu :: cpu_metrics where
  "busy_cpu = \<lparr>average = 30, p95 = 40, max_cpu = 90\<rparr>"

definition example_ri_recommender :: ri_recommender where
  "example_ri_recommender =
     \<lparr>min_utilization = 75, term_years = 1, payment_option = ''all_upfront''\<rparr>"

definition example_rec :: "string \<Rightarrow> rat \<Rightarrow> recommendation" where
  "example_rec reg m =
     \<lparr>rec_instance_id = ''i-1'', rec_name = ''web'', rec_region = reg,
      current_type = ''m5.xlarge'', recommended_type = ''m5.large'',
      strategy = ''downsize'', reason = Downsize_reason 10,
      current_monthly_cost = 2 * m, recommended_monthly_cost = m,
      monthly_savings = m, annual_savings = m * 12,
      rec_cpu_utilization = idle_cpu\<rparr>"

definition example_ri_rec :: "string \<Rightarrow> nat \<Rightarrow> ri_recommendation" where
  "example_ri_rec reg n =
     \<lparr>ri_region = reg, ri_instance_type = ''m5.large'', instance_count = n,
      ri_term_years = 1, ri_payment_option = ''all_upfront'',
      ri_current_monthly_cost = 70 * of_nat n, ri_monthly_cost = 42 * of_nat n,
      ri_monthly_savings = 28 * of_nat n, ri_annual_savings = 336 * of_nat n,
      total_savings_over_term = 336 * of_nat n, upfront_payment = 504 * of_nat n,
      discount_rate = 40,
      instances = replicate n \<lparr>member_instance_id = ''i-1'', member_name = ''web''\<rparr>\<rparr>"

section \<open>Facts about the helper functions\<close>

lemma set_sort_reverse: "set (sort_reverse k xs) = set xs"
  by (simp add: sort_reverse_def)

lemma index_of_nth: "distinct xs \<Longrightarrow> i < length xs \<Longrightarrow> index_of xs (xs ! i) = i"
proof (induction xs arbitrary: i)
  case Nil then show ?case by simp
next
  case (Cons x xs)
  then show ?case by (cases i) auto
qed

lemma distinct_instance_sizes: "distinct instance_sizes"
  by (simp add: instance_sizes_def)

lemma length_instance_sizes: "length instance_sizes = 9"
  by (simp add: instance_sizes_def)

lemma split_on_nodot: "c \<notin> set s \<Longrightarrow> split_on c s = [s]"
  by (induction s) auto

lemma split_on_ne: "split_on c s \<noteq> []"
  by (induction s) (auto split: list.splits)

lemma split_on_two: "c \<notin> set f \<Longrightarrow> c \<notin> set s \<Longrightarrow> split_on c (f @ c # s) = [f, s]"
  by (induction f) (auto simp: split_on_nodot)

lemma mset_sort_reverse: "mset (sort_reverse k xs) = mset xs"
  by (simp add: sort_reverse_def)

section \<open>Properties of \<open>EC2Recommender\<close>\<close>

lemma downsize_Some:
  assumes "recommend_downsize self a fam sz cost p = Inr (Some r)"
  shows "min_savings self \<le> monthly_savings r"
    and "annual_savings r = monthly_savings r * 12"
    and "monthly_savings r = current_monthly_cost r - recommended_monthly_cost r"
    and "strategy r = ''downsize''"
    and "rec_instance_id r = instance_id a \<and> rec_name r = name a \<and> rec_region r = region a"
    and "\<exists>c. cpu_utilization (metrics a) = Some c
            \<and> rec_cpu_utilization r = \<lparr>average = average c, p95 = p, max_cpu = max_cpu c\<rparr>"
  using assms
  by (auto simp: recommend_downsize_def Let_def split: if_splits option.splits)

lemma family_switch_Some:
  assumes "recommend_family_switch self a fam sz cost p = Inr (Some r)"
  shows "min_savings self \<le> monthly_savings r"
    and "annual_savings r = monthly_savings r * 12"
    and "monthly_savings r = current_monthly_cost r - recommended_monthly_cost r"
    and "strategy r = ''family_switch''"
    and "rec_instance_id r = instance_id a \<and> rec_name r = name a \<and> rec_region r = region a"
    and "\<exists>c. cpu_utilization (metrics a) = Some c
            \<and> rec_cpu_utilization r = \<lparr>average = average c, p95 = p, max_cpu = max_cpu c\<rparr>"
  using assms
  by (auto simp: recommend_family_switch_def Let_def split: if_splits option.splits)

lemma find_better_mem:
  assumes "find_better_instance_types self a t p = Inr rs" and "r \<in> set rs"
  shows "\<exists>fam sz. split_on CHR ''.'' t = [fam, sz]
           \<and> (recommend_downsize self a fam sz (current_cost a) p = Inr (Some r)
              \<or> recommend_family_switch self a fam sz (current_cost a) p = Inr (Some r))"
proof -
  let ?parts = "split_on CHR ''.'' t"
  from assms have len: "length ?parts = 2"
    by (auto simp: find_better_instance_types_def Let_def split: if_splits)
  then obtain fam sz where parts: "?parts = [fam, sz]"
    by (cases ?parts; cases "tl ?parts") auto
  with assms show ?thesis
    by (auto simp: find_better_instance_types_def Let_def split: sum.splits option.splits)
qed

lemma ec2_loop_mem:
  "ec2_loop self xs acc = Inr recs \<Longrightarrow> r \<in> set recs \<Longrightarrow>
     r \<in> set acc \<or>
     (\<exists>a \<in> set xs. \<exists>c rs. cpu_utilization (metrics a) = Some c \<and> p95 c < cpu_threshold self
        \<and> find_better_instance_types self a (instance_type a) (p95 c) = Inr rs \<and> r \<in> set rs)"
proof (induction xs arbitrary: acc)
  case Nil then show ?case by simp
next
  case (Cons a xs)
  show ?case
  proof (cases "cpu_utilization (metrics a)")
    case None
    with Cons.prems Cons.IH[of acc] show ?thesis by auto
  next
    case (Some c)
    show ?thesis
    proof (cases "p95 c < cpu_threshold self")
      case False
      with Some Cons.prems Cons.IH[of acc] show ?thesis by auto
    next
      case True
      with Some Cons.prems obtain rs where
        rs: "find_better_instance_types self a (instance_type a) (p95 c) = Inr rs"
        and loop: "ec2_loop self xs (acc @ rs) = Inr recs"
        by (auto split: sum.splits)
      from Cons.IH[OF loop Cons.prems(2)] Some True rs show ?thesis by auto
    qed
  qed
qed

lemma generate_mem:
  assumes "generate_recommendations self xs = Inr recs" and "r \<in> set recs"
  shows "\<exists>a \<in> set xs. \<exists>c fam sz. cpu_utilization (metrics a) = Some c
           \<and> p95 c < cpu_threshold self
           \<and> split_on CHR ''.'' (instance_type a) = [fam, sz]
           \<and> (recommend_downsize self a fam sz (current_cost a) (p95 c) = Inr (Some r)
              \<or> recommend_family_switch self a fam sz (current_cost a) (p95 c) = Inr (Some r))"
proof -
  from assms obtain l where l: "ec2_loop self xs [] = Inr l" and "r \<in> set l"
    by (auto simp: generate_recommendations_def set_sort_reverse split: sum.splits)
  from ec2_loop_mem[OF this] obtain a c rs where
    "a \<in> set xs" "cpu_utilization (metrics a) = Some c" "p95 c < cpu_threshold self"
    "find_better_instance_types self a (instance_type a) (p95 c) = Inr rs" "r \<in> set rs"
    by auto
  with find_better_mem[OF this(4,5)] show ?thesis by blast
qed

lemma find_better_total:
  "cpu_utilization (metrics a) = Some c \<Longrightarrow> \<exists>rs. find_better_instance_types self a t p = Inr rs"
  by (auto simp: find_better_instance_types_def recommend_downsize_def
        recommend_family_switch_def Let_def split: option.splits)

lemma ec2_loop_total: "\<exists>recs. ec2_loop self xs acc = Inr recs"
proof (induction xs arbitrary: acc)
  case Nil then show ?case by simp
next
  case (Cons a xs)
  show ?case
  proof (cases "cpu_utilization (metrics a)")
    case None with Cons.IH show ?thesis by simp
  next
    case (Some c)
    from find_better_total[OF Some] obtain rs where
      "find_better_instance_types self a (instance_type a) (p95 c) = Inr rs" by blast
    with Some Cons.IH show ?thesis by simp
  qed
qed

lemma ec2_loop_skip:
  assumes "\<And>acc rest. ec2_loop self (a # rest) acc = ec2_loop self rest acc"
  shows "ec2_loop self (xs @ a # ys) acc = ec2_loop self (xs @ ys) acc"
proof (induction xs arbitrary: acc)
  case Nil show ?case using assms by simp
next
  case (Cons x xs)
  then show ?case by (simp split: option.splits sum.splits)
qed

lemmas ec2_defs = generate_recommendations_def find_better_instance_types_def
  recommend_downsize_def recommend_family_switch_def instance_sizes_def
  pricing_def build_pricing_map_def premium_to_budget_def sort_reverse_def
  example_recommender_def example_analysis_def idle_cpu_def busy_cpu_def Let_def

text \<open>
  Claim C1, as stated, asks for \<open>monthly_savings > min_savings_threshold\<close> and for no
  zero or negative savings under any threshold. Both strategies drop a candidate only
  when \<open>monthly_savings < self.min_savings\<close>. A downsize candidate whose savings equal
  the threshold is returned (first input below); so is a family-switch candidate whose
  savings equal the threshold (second input, the second recommendation); and with a
  negative threshold a recommendation with negative savings is returned (third input).
\<close>

theorem C1_counterexample:
  "generate_recommendations
     \<lparr>cpu_threshold = 40, min_savings = 73 / 2, allowed_families = []\<rparr>
     [\<lparr>instance_id = ''i-1'', name = ''web'', region = ''us-east-1'',
       instance_type = ''m6i.large'',
       metrics = \<lparr>cpu_utilization = Some \<lparr>average = 5, p95 = 10, max_cpu = 20\<rparr>\<rparr>,
       current_cost = 73\<rparr>]
   = Inr [\<lparr>rec_instance_id = ''i-1'', rec_name = ''web'', rec_region = ''us-east-1'',
            current_type = ''m6i.large'', recommended_type = ''m6i.medium'',
            strategy = ''downsize'', reason = Downsize_reason 10,
            current_monthly_cost = 73, recommended_monthly_cost = 73 / 2,
            monthly_savings = 73 / 2, annual_savings = 438,
            rec_cpu_utilization = \<lparr>average = 5, p95 = 10, max_cpu = 20\<rparr>\<rparr>]
   \<and> \<not> (min_savings \<lparr>cpu_threshold = 40, min_savings = 73 / 2, allowed_families = []\<rparr>
          < (73 / 2 :: rat))
   \<and> generate_recommendations
     \<lparr>cpu_threshold = 40, min_savings = 10, allowed_families = [''m5a'']\<rparr>
     [\<lparr>instance_id = ''i-3'', name = ''api'', region = ''us-east-1'',
       instance_type = ''m5.large'',
       metrics = \<lparr>cpu_utilization = Some \<lparr>average = 5, p95 = 10, max_cpu = 20\<rparr>\<rparr>,
       current_cost = 100\<rparr>]
   = Inr [\<lparr>rec_instance_id = ''i-3'', rec_name = ''api'', rec_region = ''us-east-1'',
            current_type = ''m5.large'', recommended_type = ''m5.medium'',
            strategy = ''downsize'', reason = Downsize_reason 10,
            current_monthly_cost = 100, recommended_monthly_cost = 50,
            monthly_savings = 50, annual_savings = 600,
            rec_cpu_utilization = \<lparr>average = 5, p95 = 10, max_cpu = 20\<rparr>\<rparr>,
          \<lparr>rec_instance_id = ''i-3'', rec_name = ''api'', rec_region = ''us-east-1'',
            current_type = ''m5.large'', recommended_type = ''m5a.large'',
            strategy = ''family_switch'', reason = Family_switch_reason ''m5a'',
            current_monthly_cost = 100, recommended_monthly_cost = 90,
            monthly_savings = 10, annual_savings = 120,
            rec_cpu_utilization = \<lparr>average = 5, p95 = 10, max_cpu = 20\<rparr>\<rparr>]
   \<and> \<not> (min_savings \<lparr>cpu_threshold = 40, min_savings = 10, allowed_families = [''m5a'']\<rparr>
          < (10 :: rat))
   \<and> generate_recommendations
     \<lparr>cpu_threshold = 40, min_savings = - 300, allowed_families = []\<rparr>
     [\<lparr>instance_id = ''i-2'', name = ''db'', region = ''us-east-1'',
       instance_type = ''m5.4xlarge'',
       metrics = \<lparr>cpu_utilization = Some \<lparr>average = 5, p95 = 10, max_cpu = 20\<rparr>\<rparr>,
       current_cost = 73\<rparr>]
   = Inr [\<lparr>rec_instance_id = ''i-2'', rec_name = ''db'', rec_region = ''us-east-1'',
            current_type = ''m5.4xlarge'', recommended_type = ''m5.2xlarge'',
            strategy = ''downsize'', reason = Downsize_reason 10,
            current_monthly_cost = 73, recommended_monthly_cost = 7008 / 25,
            monthly_savings = - (5183 / 25), annual_savings = - (62196 / 25),
            rec_cpu_utilization = \<lparr>average = 5, p95 = 10, max_cpu = 20\<rparr>\<rparr>]"
  by (simp add: ec2_defs)

text \<open>
  Claim C1, as the code has it: every recommendation that \<open>generate_recommendations\<close>
  returns, from either strategy, has \<open>monthly_savings \<ge> min_savings\<close>, where
  \<open>monthly_savings = current_monthly_cost - recommended_monthly_cost\<close>; so with a
  positive threshold no recommendation has zero or negative savings. The bound is exact
  for both strategies: where the family-switch strategy applies (the family is in the
  map, its budget family is allowed) it returns a recommendation exactly when
  \<open>cost - cost * 0.90 \<ge> min_savings\<close>, and where the downsize strategy applies (the size
  is a rung above the lowest) it returns one exactly when the current cost minus the
  candidate's cost is \<open>\<ge> min_savings\<close>; the returned savings are that difference.
\<close>

theorem C1_threshold:
  "(generate_recommendations self analysis_results = Inr recs \<and> r \<in> set recs \<longrightarrow>
      min_savings self \<le> monthly_savings r
      \<and> monthly_savings r = current_monthly_cost r - recommended_monthly_cost r
      \<and> (0 < min_savings self \<longrightarrow> 0 < monthly_savings r))
   \<and> (cpu_utilization (metrics a) = Some cpu \<and> premium_to_budget fam = Some budget
        \<and> budget \<in> set (allowed_families self) \<longrightarrow>
      ((\<exists>r'. recommend_family_switch self a fam sz cost p = Inr (Some r'))
         \<longleftrightarrow> min_savings self \<le> cost - cost * (90 / 100))
      \<and> (\<forall>r'. recommend_family_switch self a fam sz cost p = Inr (Some r')
            \<longrightarrow> monthly_savings r' = cost - cost * (90 / 100)))
   \<and> (cpu_utilization (metrics a) = Some cpu \<and> 0 < i \<and> i < length instance_sizes \<longrightarrow>
      ((\<exists>r'. recommend_downsize self a fam (instance_sizes ! i) cost p = Inr (Some r'))
         \<longleftrightarrow> min_savings self
               \<le> cost - (case pricing (fam @ ''.'' @ instance_sizes ! (i - 1)) of
                            Some c \<Rightarrow> c | None \<Rightarrow> cost * (5 / 10)))
      \<and> (\<forall>r'. recommend_downsize self a fam (instance_sizes ! i) cost p = Inr (Some r')
            \<longrightarrow> monthly_savings r'
                  = cost - (case pricing (fam @ ''.'' @ instance_sizes ! (i - 1)) of
                              Some c \<Rightarrow> c | None \<Rightarrow> cost * (5 / 10))))"
proof (intro conjI impI)
  assume "generate_recommendations self analysis_results = Inr recs \<and> r \<in> set recs"
  then have g: "generate_recommendations self analysis_results = Inr recs"
    and m: "r \<in> set recs" by simp_all
  from generate_mem[OF g m] obtain b and c :: cpu_metrics and f s where
    "recommend_downsize self b f s (current_cost b) (p95 c) = Inr (Some r)
     \<or> recommend_family_switch self b f s (current_cost b) (p95 c) = Inr (Some r)"
    by blast
  note alt = this
  show le: "min_savings self \<le> monthly_savings r"
    using alt downsize_Some(1) family_switch_Some(1) by blast
  show "monthly_savings r = current_monthly_cost r - recommended_monthly_cost r"
    using alt downsize_Some(3) family_switch_Some(3) by blast
  show "0 < monthly_savings r" if "0 < min_savings self"
    using le that by simp
next
  assume h: "cpu_utilization (metrics a) = Some cpu \<and> premium_to_budget fam = Some budget
        \<and> budget \<in> set (allowed_families self)"
  show "(\<exists>r'. recommend_family_switch self a fam sz cost p = Inr (Some r'))
         \<longleftrightarrow> min_savings self \<le> cost - cost * (90 / 100)"
    using h by (simp add: recommend_family_switch_def Let_def not_less)
  show "\<forall>r'. recommend_family_switch self a fam sz cost p = Inr (Some r')
            \<longrightarrow> monthly_savings r' = cost - cost * (90 / 100)"
    using h by (auto simp: recommend_family_switch_def Let_def split: if_splits)
next
  assume h: "cpu_utilization (metrics a) = Some cpu \<and> 0 < i \<and> i < length instance_sizes"
  then have i: "i < length instance_sizes" and i0: "i \<noteq> 0" by simp_all
  have idx: "index_of instance_sizes (instance_sizes ! i) = i"
    using index_of_nth[OF distinct_instance_sizes i] .
  have mem: "instance_sizes ! i \<in> set instance_sizes"
    using i by simp
  show "(\<exists>r'. recommend_downsize self a fam (instance_sizes ! i) cost p = Inr (Some r'))
         \<longleftrightarrow> min_savings self
               \<le> cost - (case pricing (fam @ ''.'' @ instance_sizes ! (i - 1)) of
                            Some c \<Rightarrow> c | None \<Rightarrow> cost * (5 / 10))"
    using h i0 by (simp add: recommend_downsize_def idx mem Let_def not_less)
  show "\<forall>r'. recommend_downsize self a fam (instance_sizes ! i) cost p = Inr (Some r')
            \<longrightarrow> monthly_savings r'
                  = cost - (case pricing (fam @ ''.'' @ instance_sizes ! (i - 1)) of
                              Some c \<Rightarrow> c | None \<Rightarrow> cost * (5 / 10))"
    using h i0 by (auto simp: recommend_downsize_def idx mem Let_def split: if_splits)
qed

text \<open>
  An idle \<open>m5.xlarge\<close> with threshold 10: both strategies fire, and both savings are at
  least the threshold. An \<open>m5.large\<close> at cost 100 with threshold 10: the family switch
  saves exactly 10 and is returned.
\<close>

theorem C1_threshold_witness:
  "generate_recommendations example_recommender
     [example_analysis ''i-1'' ''m5.xlarge'' (3504 / 25) (Some idle_cpu)]
   = Inr [\<lparr>rec_instance_id = ''i-1'', rec_name = ''web'', rec_region = ''us-east-1'',
            current_type = ''m5.xlarge'', recommended_type = ''m5.large'',
            strategy = ''downsize'', reason = Downsize_reason 10,
            current_monthly_cost = 3504 / 25, recommended_monthly_cost = 1752 / 25,
            monthly_savings = 1752 / 25, annual_savings = 21024 / 25,
            rec_cpu_utilization = \<lparr>average = 5, p95 = 10, max_cpu = 20\<rparr>\<rparr>,
          \<lparr>rec_instance_id = ''i-1'', rec_name = ''web'', rec_region = ''us-east-1'',
            current_type = ''m5.xlarge'', recommended_type = ''m5a.xlarge'',
            strategy = ''family_switch'', reason = Family_switch_reason ''m5a'',
            current_monthly_cost = 3504 / 25, recommended_monthly_cost = 15768 / 125,
            monthly_savings = 1752 / 125, annual_savings = 21024 / 125,
            rec_cpu_utilization = \<lparr>average = 5, p95 = 10, max_cpu = 20\<rparr>\<rparr>]
   \<and> min_savings example_recommender \<le> 1752 / 125
   \<and> 0 < min_savings example_recommender
   \<and> premium_to_budget ''m5'' = Some ''m5a''
   \<and> ''m5a'' \<in> set (allowed_families example_recommender)
   \<and> min_savings example_recommender = 100 - 100 * (90 / 100)
   \<and> (\<exists>r'. recommend_family_switch example_recommender
              (example_analysis ''i-3'' ''m5.large'' 100 (Some idle_cpu))
              ''m5'' ''large'' 100 10 = Inr (Some r'))
   \<and> 4 < length instance_sizes
   \<and> (\<exists>r'. recommend_downsize example_recommender
              (example_analysis ''i-3'' ''m5.large'' 100 (Some idle_cpu))
              ''m5'' (instance_sizes ! 4) 100 10 = Inr (Some r'))"
  (is "?gen = Inr [?r1, ?r2] \<and> _")
proof -
  let ?a = "example_analysis ''i-3'' ''m5.large'' 100 (Some idle_cpu)"
  have h1: "?gen = Inr [?r1, ?r2]" by (simp add: ec2_defs)
  have h2: "?r2 \<in> set [?r1, ?r2]" by simp
  have c: "cpu_utilization (metrics ?a) = Some idle_cpu" by (simp add: example_analysis_def)
  have pb: "premium_to_budget ''m5'' = Some ''m5a''" by (simp add: premium_to_budget_def)
  have al: "''m5a'' \<in> set (allowed_families example_recommender)"
    by (simp add: example_recommender_def)
  have eq: "min_savings example_recommender = 100 - 100 * (90 / 100)"
    by (simp add: example_recommender_def)
  have i4: "4 < length instance_sizes" by (simp add: instance_sizes_def)
  have pr: "pricing (''m5'' @ ''.'' @ instance_sizes ! (4 - 1)) = None"
    by (simp add: pricing_def build_pricing_map_def instance_sizes_def)
  have le: "min_savings example_recommender \<le> 100 - 100 * (5 / 10)"
    by (simp add: example_recommender_def)
  note T = C1_threshold[of example_recommender
      "[example_analysis ''i-1'' ''m5.xlarge'' (3504 / 25) (Some idle_cpu)]"
      "[?r1, ?r2]" ?r2 ?a idle_cpu "''m5''" "''m5a''" "''large''" 100 10 4]
  from T h1 h2 have A: "min_savings example_recommender \<le> monthly_savings ?r2"
    by blast
  from T c pb al eq have B: "\<exists>r'. recommend_family_switch example_recommender ?a
              ''m5'' ''large'' 100 10 = Inr (Some r')"
    by simp
  from T c i4 pr le have C: "\<exists>r'. recommend_downsize example_recommender ?a
              ''m5'' (instance_sizes ! 4) 100 10 = Inr (Some r')"
    by simp
  from A have A': "min_savings example_recommender \<le> 1752 / 125" by simp
  have pos: "0 < min_savings example_recommender" by (simp add: example_recommender_def)
  from h1 A' pos pb al eq B i4 C show ?thesis by (simp only: simp_thms)
qed

text \<open>
  Claim C4: \<open>generate_recommendations\<close> never raises; a resource whose CPU series is
  missing, or whose CPU p95 is greater than or equal to \<open>cpu_underutilized_threshold\<close>,
  contributes nothing (the result is the same as without that resource); and every
  returned recommendation belongs to an input resource whose CPU series exists and whose
  p95 is strictly below the threshold.
\<close>
theorem C4_gate:
  "(\<exists>recs. generate_recommendations self analysis_results = Inr recs)
   \<and> ((cpu_utilization (metrics a) = None
        \<or> (\<exists>c. cpu_utilization (metrics a) = Some c \<and> cpu_threshold self \<le> p95 c))
       \<longrightarrow> generate_recommendations self (before @ a # after)
           = generate_recommendations self (before @ after))
   \<and> (\<forall>recs r. generate_recommendations self analysis_results = Inr recs \<and> r \<in> set recs
       \<longrightarrow> (\<exists>b \<in> set analysis_results. \<exists>c.
              cpu_utilization (metrics b) = Some c \<and> p95 c < cpu_threshold self
              \<and> rec_instance_id r = instance_id b \<and> rec_name r = name b
              \<and> rec_region r = region b
              \<and> rec_cpu_utilization r
                  = \<lparr>average = average c, p95 = p95 c, max_cpu = max_cpu c\<rparr>))"
proof (intro conjI impI allI)
  show "\<exists>recs. generate_recommendations self analysis_results = Inr recs"
    using ec2_loop_total[of self analysis_results "[]"]
    by (auto simp: generate_recommendations_def)
next
  assume gate: "cpu_utilization (metrics a) = None
        \<or> (\<exists>c. cpu_utilization (metrics a) = Some c \<and> cpu_threshold self \<le> p95 c)"
  then have "\<And>acc rest. ec2_loop self (a # rest) acc = ec2_loop self rest acc"
    by auto
  then have "ec2_loop self (before @ a # after) [] = ec2_loop self (before @ after) []"
    by (rule ec2_loop_skip)
  then show "generate_recommendations self (before @ a # after)
           = generate_recommendations self (before @ after)"
    by (simp add: generate_recommendations_def)
next
  fix recs r
  assume "generate_recommendations self analysis_results = Inr recs \<and> r \<in> set recs"
  then have g: "generate_recommendations self analysis_results = Inr recs" and r: "r \<in> set recs"
    by simp_all
  from generate_mem[OF g r] obtain b and c :: cpu_metrics and fam sz where
    b: "b \<in> set analysis_results" "cpu_utilization (metrics b) = Some c"
       "p95 c < cpu_threshold self"
    and alt: "recommend_downsize self b fam sz (current_cost b) (p95 c) = Inr (Some r)
      \<or> recommend_family_switch self b fam sz (current_cost b) (p95 c) = Inr (Some r)"
    by blast
  have ident: "rec_instance_id r = instance_id b \<and> rec_name r = name b \<and> rec_region r = region b"
    using alt downsize_Some(5) family_switch_Some(5) by blast
  have "\<exists>c'. cpu_utilization (metrics b) = Some c'
            \<and> rec_cpu_utilization r = \<lparr>average = average c', p95 = p95 c, max_cpu = max_cpu c'\<rparr>"
    using alt downsize_Some(6) family_switch_Some(6) by blast
  with b(2) have snap: "rec_cpu_utilization r = \<lparr>average = average c, p95 = p95 c, max_cpu = max_cpu c\<rparr>"
    by auto
  from b ident snap
  show "\<exists>b \<in> set analysis_results. \<exists>c.
              cpu_utilization (metrics b) = Some c \<and> p95 c < cpu_threshold self
              \<and> rec_instance_id r = instance_id b \<and> rec_name r = name b
              \<and> rec_region r = region b
              \<and> rec_cpu_utilization r
                  = \<lparr>average = average c, p95 = p95 c, max_cpu = max_cpu c\<rparr>"
    by blast
qed

text \<open>A resource without CPU series and a resource at the threshold leave the result unchanged.\<close>

theorem C4_gate_witness:
  "cpu_utilization (metrics (example_analysis ''i-3'' ''m5.xlarge'' (3504 / 25) None)) = None
   \<and> generate_recommendations example_recommender
        ([example_analysis ''i-2'' ''t3.large'' (7592 / 125) (Some idle_cpu)]
         @ example_analysis ''i-3'' ''m5.xlarge'' (3504 / 25) None # [])
     = generate_recommendations example_recommender
        ([example_analysis ''i-2'' ''t3.large'' (7592 / 125) (Some idle_cpu)] @ [])
   \<and> cpu_threshold example_recommender \<le> p95 busy_cpu
   \<and> generate_recommendations example_recommender
        ([] @ example_analysis ''i-4'' ''m5.xlarge'' (3504 / 25) (Some busy_cpu) # [])
     = generate_recommendations example_recommender ([] @ [])
   \<and> generate_recommendations example_recommender [] = Inr []"
proof -
  let ?a = "example_analysis ''i-3'' ''m5.xlarge'' (3504 / 25) None"
  let ?b = "example_analysis ''i-4'' ''m5.xlarge'' (3504 / 25) (Some busy_cpu)"
  have ha: "cpu_utilization (metrics ?a) = None"
    by (simp add: example_analysis_def)
  have hb: "cpu_threshold example_recommender \<le> p95 busy_cpu"
    by (simp add: example_recommender_def busy_cpu_def)
  have hb': "\<exists>c. cpu_utilization (metrics ?b) = Some c \<and> cpu_threshold example_recommender \<le> p95 c"
    using hb by (simp add: example_analysis_def)
  have e: "generate_recommendations example_recommender [] = Inr []"
    by (simp add: ec2_defs)
  from C4_gate[of example_recommender "[]" ?a
        "[example_analysis ''i-2'' ''t3.large'' (7592 / 125) (Some idle_cpu)]" "[]"] ha
  have 1: "generate_recommendations example_recommender
        ([example_analysis ''i-2'' ''t3.large'' (7592 / 125) (Some idle_cpu)] @ ?a # [])
     = generate_recommendations example_recommender
        ([example_analysis ''i-2'' ''t3.large'' (7592 / 125) (Some idle_cpu)] @ [])"
    by blast
  from C4_gate[of example_recommender "[]" ?b "[]" "[]"] hb'
  have 2: "generate_recommendations example_recommender ([] @ ?b # [])
     = generate_recommendations example_recommender ([] @ [])"
    by blast
  from ha hb 1 2 e show ?thesis by (simp only: simp_thms)
qed

text \<open>
  Claim C5: for a resource type \<open>family.size\<close> whose size is rung \<open>i\<close> of the ladder
  \<open>nano < micro < small < medium < large < xlarge < 2xlarge < 4xlarge < 8xlarge\<close>, the type
  splits into \<open>(family, size)\<close>, and the downsize strategy returns nothing for \<open>i = 0\<close>;
  for \<open>i > 0\<close> its candidate is the same family with rung \<open>i - 1\<close>, priced by the pricing
  map, or at half the current cost when the map has no entry for it. The candidate is
  returned unless its savings are below the savings threshold.
\<close>
theorem C5_downsize:
  assumes "i < length instance_sizes" and "CHR ''.'' \<notin> set family"
    and "cpu_utilization (metrics a) = Some cpu"
  shows "split_on CHR ''.'' (family @ ''.'' @ instance_sizes ! i) = [family, instance_sizes ! i]
     \<and> recommend_downsize self a family (instance_sizes ! i) cost p95_cpu =
       (if i = 0 then Inr None
        else if cost - (case pricing (family @ ''.'' @ instance_sizes ! (i - 1)) of
                          Some c \<Rightarrow> c | None \<Rightarrow> cost / 2) < min_savings self
        then Inr None
        else Inr (Some \<lparr>
               rec_instance_id = instance_id a,
               rec_name = name a,
               rec_region = region a,
               current_type = family @ ''.'' @ instance_sizes ! i,
               recommended_type = family @ ''.'' @ instance_sizes ! (i - 1),
               strategy = ''downsize'',
               reason = Downsize_reason p95_cpu,
               current_monthly_cost = cost,
               recommended_monthly_cost =
                 (case pricing (family @ ''.'' @ instance_sizes ! (i - 1)) of
                    Some c \<Rightarrow> c | None \<Rightarrow> cost / 2),
               monthly_savings =
                 cost - (case pricing (family @ ''.'' @ instance_sizes ! (i - 1)) of
                           Some c \<Rightarrow> c | None \<Rightarrow> cost / 2),
               annual_savings =
                 (cost - (case pricing (family @ ''.'' @ instance_sizes ! (i - 1)) of
                            Some c \<Rightarrow> c | None \<Rightarrow> cost / 2)) * 12,
               rec_cpu_utilization =
                 \<lparr>average = average cpu, p95 = p95_cpu, max_cpu = max_cpu cpu\<rparr>\<rparr>))"
proof -
  have nodot: "CHR ''.'' \<notin> set (instance_sizes ! i)"
  proof -
    have "\<forall>s \<in> set instance_sizes. CHR ''.'' \<notin> set s"
      by (simp add: instance_sizes_def)
    with assms(1) show ?thesis by simp
  qed
  have sp: "split_on CHR ''.'' (family @ ''.'' @ instance_sizes ! i) = [family, instance_sizes ! i]"
    using split_on_two[OF assms(2) nodot] by simp
  have idx: "index_of instance_sizes (instance_sizes ! i) = i"
    using index_of_nth[OF distinct_instance_sizes assms(1)] .
  have mem: "instance_sizes ! i \<in> set instance_sizes"
    using assms(1) by simp
  show ?thesis
    using sp by (simp add: recommend_downsize_def idx mem assms(3) Let_def split: option.splits)
qed

text \<open>\<open>m5.xlarge\<close> is rung 5; the candidate is rung 4, \<open>m5.large\<close>, at its price in the pricing map.\<close>

theorem C5_downsize_witness:
  "5 < length instance_sizes \<and> CHR ''.'' \<notin> set ''m5''
   \<and> instance_sizes ! 5 = ''xlarge'' \<and> instance_sizes ! 4 = ''large''
   \<and> split_on CHR ''.'' ''m5.xlarge'' = [''m5'', ''xlarge'']
   \<and> recommend_downsize example_recommender
        (example_analysis ''i-1'' ''m5.xlarge'' (3504 / 25) (Some idle_cpu))
        ''m5'' ''xlarge'' (3504 / 25) 10
     = Inr (Some \<lparr>rec_instance_id = ''i-1'', rec_name = ''web'', rec_region = ''us-east-1'',
            current_type = ''m5.xlarge'', recommended_type = ''m5.large'',
            strategy = ''downsize'', reason = Downsize_reason 10,
            current_monthly_cost = 3504 / 25, recommended_monthly_cost = 1752 / 25,
            monthly_savings = 1752 / 25, annual_savings = 21024 / 25,
            rec_cpu_utilization = \<lparr>average = 5, p95 = 10, max_cpu = 20\<rparr>\<rparr>)"
proof -
  let ?a = "example_analysis ''i-1'' ''m5.xlarge'' (3504 / 25) (Some idle_cpu)"
  have h1: "5 < length instance_sizes" by (simp add: instance_sizes_def)
  have h2: "CHR ''.'' \<notin> set ''m5''" by simp
  have h3: "cpu_utilization (metrics ?a) = Some idle_cpu" by (simp add: example_analysis_def)
  have n5: "instance_sizes ! 5 = ''xlarge''" by (simp add: instance_sizes_def)
  have n4: "instance_sizes ! 4 = ''large''" by (simp add: instance_sizes_def)
  have pr: "pricing ''m5.large'' = Some (1752 / 25)"
    by (simp add: pricing_def build_pricing_map_def)
  from C5_downsize[OF h1 h2 h3, of example_recommender "3504 / 25" 10] h1 h2 n5 n4 pr
  show ?thesis
    by (simp add: example_recommender_def example_analysis_def idle_cpu_def)
qed

text \<open>
  Claim C6: when the family-switch strategy returns a recommendation, the current family
  is a key of the map \<open>m5 \<rightarrow> m5a, c5 \<rightarrow> c5a, r5 \<rightarrow> r5a, t3 \<rightarrow> t3a\<close>, the mapped budget
  family is in \<open>allowed_families\<close>, the recommended type is the budget family with the
  unchanged size, and the recommended cost is \<open>0.90\<close> times the current monthly cost.
\<close>
theorem C6_family_switch:
  assumes "recommend_family_switch self a current_family current_size cost p95_cpu = Inr (Some r)"
  shows "\<exists>budget_family.
           (current_family, budget_family)
              \<in> {(''m5'', ''m5a''), (''c5'', ''c5a''), (''r5'', ''r5a''), (''t3'', ''t3a'')}
           \<and> budget_family \<in> set (allowed_families self)
           \<and> recommended_type r = budget_family @ ''.'' @ current_size
           \<and> recommended_monthly_cost r = (90 / 100) * cost
           \<and> current_monthly_cost r = cost
           \<and> strategy r = ''family_switch''"
  using assms
  by (auto simp: recommend_family_switch_def premium_to_budget_def Let_def
           split: if_splits option.splits)

text \<open>\<open>m5.xlarge\<close> switches to \<open>m5a.xlarge\<close> at 90 percent of the cost; with \<open>allowed_families = [m5a]\<close> a \<open>c5.large\<close> gets no family switch.\<close>

theorem C6_family_switch_witness:
  "recommend_family_switch example_recommender
        (example_analysis ''i-1'' ''m5.xlarge'' (3504 / 25) (Some idle_cpu))
        ''m5'' ''xlarge'' (3504 / 25) 10
     = Inr (Some \<lparr>rec_instance_id = ''i-1'', rec_name = ''web'', rec_region = ''us-east-1'',
            current_type = ''m5.xlarge'', recommended_type = ''m5a.xlarge'',
            strategy = ''family_switch'', reason = Family_switch_reason ''m5a'',
            current_monthly_cost = 3504 / 25, recommended_monthly_cost = 15768 / 125,
            monthly_savings = 1752 / 125, annual_savings = 21024 / 125,
            rec_cpu_utilization = \<lparr>average = 5, p95 = 10, max_cpu = 20\<rparr>\<rparr>)
   \<and> (15768 / 125 :: rat) = 90 / 100 * (3504 / 25)
   \<and> ''m5a'' \<in> set (allowed_families example_recommender)
   \<and> recommend_family_switch
        \<lparr>cpu_threshold = 40, min_savings = 1, allowed_families = [''m5a'']\<rparr>
        (example_analysis ''i-6'' ''c5.large'' (1241 / 20) (Some idle_cpu))
        ''c5'' ''large'' (1241 / 20) 10
     = Inr None"
  (is "?fs = Inr (Some ?r) \<and> _ \<and> _ \<and> _")
proof -
  have h: "?fs = Inr (Some ?r)" by (simp add: ec2_defs)
  have none: "recommend_family_switch
        \<lparr>cpu_threshold = 40, min_savings = 1, allowed_families = [''m5a'']\<rparr>
        (example_analysis ''i-6'' ''c5.large'' (1241 / 20) (Some idle_cpu))
        ''c5'' ''large'' (1241 / 20) 10
     = Inr None"
    by (simp add: ec2_defs)
  from C6_family_switch[OF h] h none show ?thesis
    by (simp add: example_recommender_def)
qed

text \<open>
  Claim C8: for an eligible resource (CPU series present, p95 below the threshold) whose
  type does not split into exactly two dot-separated segments, no strategy is evaluated:
  \<open>_find_better_instance_types\<close> returns the empty list, \<open>generate_recommendations\<close>
  returns what it returns without that resource, and it does not raise.
\<close>
theorem C8_malformed:
  assumes "cpu_utilization (metrics a) = Some c" and "p95 c < cpu_threshold self"
    and "length (split_on CHR ''.'' (instance_type a)) \<noteq> 2"
  shows "find_better_instance_types self a (instance_type a) (p95 c) = Inr []
         \<and> generate_recommendations self (before @ a # after)
             = generate_recommendations self (before @ after)
         \<and> (\<exists>recs. generate_recommendations self (before @ a # after) = Inr recs)"
proof -
  have fb: "find_better_instance_types self a (instance_type a) (p95 c) = Inr []"
    using assms(3) by (simp add: find_better_instance_types_def)
  with assms(1,2) have "\<And>acc rest. ec2_loop self (a # rest) acc = ec2_loop self rest acc"
    by simp
  then have "ec2_loop self (before @ a # after) [] = ec2_loop self (before @ after) []"
    by (rule ec2_loop_skip)
  then have "generate_recommendations self (before @ a # after)
             = generate_recommendations self (before @ after)"
    by (simp add: generate_recommendations_def)
  moreover have "\<exists>recs. generate_recommendations self (before @ a # after) = Inr recs"
    using ec2_loop_total[of self "before @ a # after" "[]"]
    by (auto simp: generate_recommendations_def)
  ultimately show ?thesis using fb by simp
qed

text \<open>The type \<open>m5.metal.large\<close> has three segments.\<close>

theorem C8_malformed_witness:
  "cpu_utilization (metrics (example_analysis ''i-5'' ''m5.metal.large'' 73 (Some idle_cpu)))
     = Some idle_cpu
   \<and> p95 idle_cpu < cpu_threshold example_recommender
   \<and> split_on CHR ''.'' ''m5.metal.large'' = [''m5'', ''metal'', ''large'']
   \<and> find_better_instance_types example_recommender
        (example_analysis ''i-5'' ''m5.metal.large'' 73 (Some idle_cpu))
        ''m5.metal.large'' 10 = Inr []
   \<and> generate_recommendations example_recommender
        ([] @ example_analysis ''i-5'' ''m5.metal.large'' 73 (Some idle_cpu) # [])
     = Inr []"
proof -
  let ?a = "example_analysis ''i-5'' ''m5.metal.large'' 73 (Some idle_cpu)"
  have h1: "cpu_utilization (metrics ?a) = Some idle_cpu"
    by (simp add: example_analysis_def)
  have h2: "p95 idle_cpu < cpu_threshold example_recommender"
    by (simp add: idle_cpu_def example_recommender_def)
  have sp: "split_on CHR ''.'' ''m5.metal.large'' = [''m5'', ''metal'', ''large'']"
    by simp
  have h3: "length (split_on CHR ''.'' (instance_type ?a)) \<noteq> 2"
    by (simp add: example_analysis_def)
  have e: "generate_recommendations example_recommender ([] @ []) = Inr []"
    by (simp add: ec2_defs)
  have ty: "instance_type ?a = ''m5.metal.large''" by (simp add: example_analysis_def)
  have p: "p95 idle_cpu = 10" by (simp add: idle_cpu_def)
  from C8_malformed[OF h1 h2 h3, of "[]" "[]"] h1 h2 sp e show ?thesis
    by (simp only: ty p simp_thms)
qed

text \<open>
  Claim C10: every recommendation that \<open>generate_recommendations\<close> returns, from the
  downsize or the family-switch strategy, has \<open>annual_savings = 12 * monthly_savings\<close>.
\<close>
theorem C10_annual:
  assumes "generate_recommendations self analysis_results = Inr recs" and "r \<in> set recs"
  shows "annual_savings r = 12 * monthly_savings r"
proof -
  from generate_mem[OF assms] obtain a and c :: cpu_metrics and fam sz where
    "recommend_downsize self a fam sz (current_cost a) (p95 c) = Inr (Some r)
     \<or> recommend_family_switch self a fam sz (current_cost a) (p95 c) = Inr (Some r)"
    by blast
  then have "annual_savings r = monthly_savings r * 12"
    using downsize_Some(2) family_switch_Some(2) by blast
  then show ?thesis by simp
qed

text \<open>An idle \<open>t3.large\<close>: the downsize to \<open>t3.medium\<close> saves 30.368 a month and 364.416 a year.\<close>

theorem C10_annual_witness:
  "generate_recommendations example_recommender
     [example_analysis ''i-2'' ''t3.large'' (7592 / 125) (Some idle_cpu)]
   = Inr [\<lparr>rec_instance_id = ''i-2'', rec_name = ''web'', rec_region = ''us-east-1'',
            current_type = ''t3.large'', recommended_type = ''t3.medium'',
            strategy = ''downsize'', reason = Downsize_reason 10,
            current_monthly_cost = 7592 / 125, recommended_monthly_cost = 3796 / 125,
            monthly_savings = 3796 / 125, annual_savings = 45552 / 125,
            rec_cpu_utilization = \<lparr>average = 5, p95 = 10, max_cpu = 20\<rparr>\<rparr>]
   \<and> (45552 / 125 :: rat) = 12 * (3796 / 125)"
  (is "?gen = Inr [?r1] \<and> _")
proof -
  have h1: "?gen = Inr [?r1]" by (simp add: ec2_defs)
  have h2: "?r1 \<in> set [?r1]" by simp
  from C10_annual[OF h1 h2] h1 show ?thesis by simp
qed

section \<open>Properties of \<open>ReservedInstanceRecommender\<close>\<close>

lemma map_of_group_append:
  "map_of (group_append k v g) k' =
     (if k' = k then Some ((case map_of g k of None \<Rightarrow> [] | Some vs \<Rightarrow> vs) @ [v])
      else map_of g k')"
  by (induction g) auto

lemma keys_group_append: "fst ` set (group_append k v g) = insert k (fst ` set g)"
proof (induction g)
  case Nil show ?case by simp
next
  case (Cons x g)
  obtain k' vs where x: "x = (k', vs)" by (cases x)
  show ?case
  proof (cases "k' = k")
    case True with x show ?thesis by simp
  next
    case False with x Cons.IH show ?thesis by (simp add: insert_commute)
  qed
qed

lemma distinct_group_append:
  "distinct (map fst g) \<Longrightarrow> distinct (map fst (group_append k v g))"
proof (induction g)
  case Nil show ?case by simp
next
  case (Cons x g)
  obtain k' vs where x: "x = (k', vs)" by (cases x)
  show ?case
  proof (cases "k' = k")
    case True with x Cons.prems show ?thesis by simp
  next
    case False with x Cons show ?thesis by (simp add: keys_group_append)
  qed
qed

lemma group_instances_snoc:
  "group_instances (xs @ [a])
     = group_append (region a, instance_type a) a (group_instances xs)"
  by (simp add: group_instances_def)

lemma distinct_group_instances: "distinct (map fst (group_instances xs))"
proof (induction xs rule: rev_induct)
  case Nil show ?case by (simp add: group_instances_def)
next
  case (snoc a xs)
  then show ?case by (simp only: group_instances_snoc distinct_group_append)
qed

lemma keys_group_instances:
  "fst ` set (group_instances xs) = (\<lambda>a. (region a, instance_type a)) ` set xs"
proof (induction xs rule: rev_induct)
  case Nil show ?case by (simp add: group_instances_def)
next
  case (snoc a xs)
  then show ?case by (simp add: group_instances_snoc keys_group_append)
qed

lemma map_of_group_instances:
  "map_of (group_instances xs) k =
     (if k \<in> (\<lambda>a. (region a, instance_type a)) ` set xs
      then Some (filter (\<lambda>a. (region a, instance_type a) = k) xs) else None)"
proof (induction xs rule: rev_induct)
  case Nil show ?case by (simp add: group_instances_def)
next
  case (snoc a xs)
  let ?key = "\<lambda>a. (region a, instance_type a)"
  show ?case
  proof (cases "k = ?key a")
    case True
    have "filter (\<lambda>b. ?key b = k) xs = (case map_of (group_instances xs) k of None \<Rightarrow> [] | Some vs \<Rightarrow> vs)"
    proof (cases "k \<in> ?key ` set xs")
      case True then show ?thesis by (simp add: snoc.IH)
    next
      case False
      then have "filter (\<lambda>b. ?key b = k) xs = []" by (auto simp: filter_empty_conv)
      with False show ?thesis by (simp add: snoc.IH)
    qed
    with True show ?thesis
      by (simp add: group_instances_snoc map_of_group_append)
  next
    case False
    then have "?key a \<noteq> k" by blast
    with False show ?thesis
      by (simp add: group_instances_snoc map_of_group_append snoc.IH)
  qed
qed

lemma group_instances_member:
  assumes "(k, vs) \<in> set (group_instances xs)"
  shows "vs = filter (\<lambda>a. (region a, instance_type a) = k) xs \<and> vs \<noteq> []"
proof -
  let ?key = "\<lambda>a. (region a, instance_type a)"
  from assms have m: "map_of (group_instances xs) k = Some vs"
    by (simp add: distinct_group_instances)
  then have k: "k \<in> ?key ` set xs" and vs: "vs = filter (\<lambda>a. ?key a = k) xs"
    by (simp_all add: map_of_group_instances split: if_splits)
  from k obtain a where "a \<in> set xs" "?key a = k" by blast
  then have "filter (\<lambda>a. ?key a = k) xs \<noteq> []" by (auto simp: filter_empty_conv)
  with vs show ?thesis by simp
qed

lemma create_ri_fields:
  assumes "discount_rates (term_years self) = Some by_option"
    and "by_option (payment_option self) = Some rate"
  shows "\<exists>r. create_ri_recommendation self reg ty insts = Inr r
     \<and> ri_region r = reg \<and> ri_instance_type r = ty
     \<and> instance_count r = length insts
     \<and> instances r = map (\<lambda>a. \<lparr>member_instance_id = instance_id a, member_name = name a\<rparr>) insts
     \<and> ri_current_monthly_cost r = sum_list (map current_cost insts)
     \<and> ri_monthly_cost r = sum_list (map current_cost insts) * (1 - rate)
     \<and> ri_monthly_savings r = sum_list (map current_cost insts) - ri_monthly_cost r
     \<and> ri_annual_savings r = ri_monthly_savings r * 12
     \<and> total_savings_over_term r = ri_annual_savings r * of_int (term_years self)
     \<and> upfront_payment r =
         (if payment_option self = ''all_upfront''
          then sum_list (map current_cost insts) * 12 * of_int (term_years self) * (1 - rate)
          else if payment_option self = ''partial_upfront''
          then sum_list (map current_cost insts) * 12 * of_int (term_years self) * (1 - rate) / 2
          else 0)"
  using assms
  by (simp add: create_ri_recommendation_def calculate_upfront_payment_def Let_def)

lemma ri_loop_map:
  assumes "\<And>k vs. (k, vs) \<in> set G \<Longrightarrow>
             vs \<noteq> [] \<and> (\<exists>r. create_ri_recommendation self (fst k) (snd k) vs = Inr r)"
  shows "ri_loop self G acc
     = Inr (acc @ map (\<lambda>(k, vs). projr (create_ri_recommendation self (fst k) (snd k) vs)) G)"
  using assms
proof (induction G arbitrary: acc)
  case Nil show ?case by simp
next
  case (Cons x G)
  obtain k vs where x: "x = (k, vs)" by (cases x)
  from Cons.prems[of k vs] x obtain r where
    ne: "vs \<noteq> []" and r: "create_ri_recommendation self (fst k) (snd k) vs = Inr r"
    by auto
  have "ri_loop self G (acc @ [r])
     = Inr ((acc @ [r]) @ map (\<lambda>(k, vs). projr (create_ri_recommendation self (fst k) (snd k) vs)) G)"
    using Cons.prems by (intro Cons.IH) auto
  with x ne r show ?case by simp
qed

lemma mk_fields:
  assumes "discount_rates (term_years self) = Some by_option"
    and "by_option (payment_option self) = Some rate"
  shows "create_ri_recommendation self reg ty insts
           = Inr (projr (create_ri_recommendation self reg ty insts))"
  using create_ri_fields[OF assms, of reg ty insts] by auto

lemma ri_loop_groups:
  assumes "discount_rates (term_years self) = Some by_option"
    and "by_option (payment_option self) = Some rate"
  shows "ri_loop self (group_instances xs) []
     = Inr (map (\<lambda>(k, vs). projr (create_ri_recommendation self (fst k) (snd k) vs))
              (group_instances xs))"
proof -
  have "ri_loop self (group_instances xs) []
     = Inr ([] @ map (\<lambda>(k, vs). projr (create_ri_recommendation self (fst k) (snd k) vs))
              (group_instances xs))"
  proof (rule ri_loop_map)
    fix k vs assume "(k, vs) \<in> set (group_instances xs)"
    from group_instances_member[OF this] have ne: "vs \<noteq> []" by (rule conjunct2)
    have "\<exists>r. create_ri_recommendation self (fst k) (snd k) vs = Inr r"
      using mk_fields[OF assms] by blast
    with ne show "vs \<noteq> [] \<and> (\<exists>r. create_ri_recommendation self (fst k) (snd k) vs = Inr r)"
      by (rule conjI)
  qed
  then show ?thesis by simp
qed

lemma mk_keys:
  assumes "discount_rates (term_years self) = Some by_option"
    and "by_option (payment_option self) = Some rate"
  shows "map (\<lambda>r. (ri_region r, ri_instance_type r))
           (map (\<lambda>(k, vs). projr (create_ri_recommendation self (fst k) (snd k) vs)) G)
         = map fst G"
proof (induction G)
  case Nil show ?case by simp
next
  case (Cons x G)
  obtain k vs where x: "x = (k, vs)" by (cases x)
  from create_ri_fields[OF assms, of "fst k" "snd k" vs]
  obtain r where "create_ri_recommendation self (fst k) (snd k) vs = Inr r"
    and "ri_region r = fst k" and "ri_instance_type r = snd k"
    by blast
  with Cons.IH x show ?case by simp
qed

lemma distinct_perm_keys:
  assumes "mset ys = mset xs" and "map f xs = ks" and "distinct ks"
  shows "distinct (map f ys) \<and> set (map f ys) = set ks"
proof -
  have "mset (map f ys) = mset ks" using assms(1,2) by (metis mset_map)
  then show ?thesis using assms(3) by (metis mset_eq_imp_distinct_iff mset_eq_setD)
qed

lemmas ri_defs = ri_generate_recommendations_def group_instances_def
  create_ri_recommendation_def calculate_upfront_payment_def discount_rates_def
  sort_reverse_def example_ri_recommender_def example_analysis_def Let_def

text \<open>
  Claim C3: when the discount table has an entry \<open>rate\<close> for the configured term and
  payment option, the reserved-instance recommender returns exactly one recommendation
  per \<open>(region, instance_type)\<close> pair that occurs in the input, with no other filter.
  Each recommendation covers exactly the input resources of its pair, in input order; its
  current monthly cost is the sum of their costs, \<open>ri_monthly_cost\<close> is that sum times
  \<open>1 - rate\<close>, \<open>monthly_savings\<close> is their difference, \<open>annual_savings\<close> is
  \<open>monthly_savings * 12\<close>, the savings over the term are \<open>annual_savings * term_years\<close>,
  and the upfront payment is the full discounted term cost for \<open>all_upfront\<close>, half of it
  for \<open>partial_upfront\<close> and zero otherwise.
\<close>
theorem C3_reserved:
  assumes "discount_rates (term_years self) = Some by_option"
    and "by_option (payment_option self) = Some rate"
  shows "\<exists>recs. ri_generate_recommendations self analysis_results = Inr recs
     \<and> distinct (map (\<lambda>r. (ri_region r, ri_instance_type r)) recs)
     \<and> set (map (\<lambda>r. (ri_region r, ri_instance_type r)) recs)
         = (\<lambda>a. (region a, instance_type a)) ` set analysis_results
     \<and> (\<forall>r \<in> set recs.
          let members = filter (\<lambda>a. (region a, instance_type a)
                                      = (ri_region r, ri_instance_type r)) analysis_results;
              aggregate = sum_list (map current_cost members)
          in members \<noteq> []
           \<and> instance_count r = length members
           \<and> instances r
               = map (\<lambda>a. \<lparr>member_instance_id = instance_id a, member_name = name a\<rparr>) members
           \<and> ri_current_monthly_cost r = aggregate
           \<and> ri_monthly_cost r = aggregate * (1 - rate)
           \<and> ri_monthly_savings r = aggregate - ri_monthly_cost r
           \<and> ri_annual_savings r = ri_monthly_savings r * 12
           \<and> total_savings_over_term r = ri_annual_savings r * of_int (term_years self)
           \<and> upfront_payment r =
               (if payment_option self = ''all_upfront''
                then aggregate * 12 * of_int (term_years self) * (1 - rate)
                else if payment_option self = ''partial_upfront''
                then aggregate * 12 * of_int (term_years self) * (1 - rate) / 2
                else 0))"
proof -
  define G where "G = group_instances analysis_results"
  define raw where
    "raw = map (\<lambda>(k, vs). projr (create_ri_recommendation self (fst k) (snd k) vs)) G"
  define recs where "recs = sort_reverse ri_annual_savings raw"
  have loop: "ri_loop self G [] = Inr raw"
    unfolding G_def raw_def by (rule ri_loop_groups[OF assms])
  have gen: "ri_generate_recommendations self analysis_results = Inr recs"
    using loop by (simp add: ri_generate_recommendations_def G_def recs_def)
  have raw_keys: "map (\<lambda>r. (ri_region r, ri_instance_type r)) raw = map fst G"
    unfolding raw_def by (rule mk_keys[OF assms])
  have perm: "mset recs = mset raw"
    unfolding recs_def by (rule mset_sort_reverse)
  have dG: "distinct (map fst G)"
    unfolding G_def by (rule distinct_group_instances)
  have dk: "distinct (map (\<lambda>r. (ri_region r, ri_instance_type r)) recs)
      \<and> set (map (\<lambda>r. (ri_region r, ri_instance_type r)) recs) = set (map fst G)"
    using perm raw_keys dG by (rule distinct_perm_keys)
  have kG: "set (map fst G) = (\<lambda>a. (region a, instance_type a)) ` set analysis_results"
    unfolding G_def using keys_group_instances[of analysis_results] by simp
  have fields: "let members = filter (\<lambda>a. (region a, instance_type a)
                                      = (ri_region r, ri_instance_type r)) analysis_results;
              aggregate = sum_list (map current_cost members)
          in members \<noteq> []
           \<and> instance_count r = length members
           \<and> instances r
               = map (\<lambda>a. \<lparr>member_instance_id = instance_id a, member_name = name a\<rparr>) members
           \<and> ri_current_monthly_cost r = aggregate
           \<and> ri_monthly_cost r = aggregate * (1 - rate)
           \<and> ri_monthly_savings r = aggregate - ri_monthly_cost r
           \<and> ri_annual_savings r = ri_monthly_savings r * 12
           \<and> total_savings_over_term r = ri_annual_savings r * of_int (term_years self)
           \<and> upfront_payment r =
               (if payment_option self = ''all_upfront''
                then aggregate * 12 * of_int (term_years self) * (1 - rate)
                else if payment_option self = ''partial_upfront''
                then aggregate * 12 * of_int (term_years self) * (1 - rate) / 2
                else 0)"
    if "r \<in> set recs" for r
  proof -
    from that have "r \<in> set raw" by (simp add: recs_def sort_reverse_def)
    then obtain x where xG: "x \<in> set G"
      and rx: "r = (\<lambda>(k, vs). projr (create_ri_recommendation self (fst k) (snd k) vs)) x"
      unfolding raw_def by (auto simp only: set_map image_iff)
    obtain k vs where x: "x = (k, vs)" by (cases x)
    have kv: "(k, vs) \<in> set (group_instances analysis_results)"
      using xG x by (simp add: G_def)
    have r: "r = projr (create_ri_recommendation self (fst k) (snd k) vs)"
      using rx x by simp
    from group_instances_member[OF kv] have
      vs: "vs = filter (\<lambda>a. (region a, instance_type a) = k) analysis_results"
      and ne: "vs \<noteq> []"
      by (rule conjunct1, rule conjunct2)
    from create_ri_fields[OF assms, of "fst k" "snd k" vs]
    obtain r' where c: "create_ri_recommendation self (fst k) (snd k) vs = Inr r'"
      and g: "ri_region r' = fst k \<and> ri_instance_type r' = snd k
     \<and> instance_count r' = length vs
     \<and> instances r' = map (\<lambda>a. \<lparr>member_instance_id = instance_id a, member_name = name a\<rparr>) vs
     \<and> ri_current_monthly_cost r' = sum_list (map current_cost vs)
     \<and> ri_monthly_cost r' = sum_list (map current_cost vs) * (1 - rate)
     \<and> ri_monthly_savings r' = sum_list (map current_cost vs) - ri_monthly_cost r'
     \<and> ri_annual_savings r' = ri_monthly_savings r' * 12
     \<and> total_savings_over_term r' = ri_annual_savings r' * of_int (term_years self)
     \<and> upfront_payment r' =
         (if payment_option self = ''all_upfront''
          then sum_list (map current_cost vs) * 12 * of_int (term_years self) * (1 - rate)
          else if payment_option self = ''partial_upfront''
          then sum_list (map current_cost vs) * 12 * of_int (term_years self) * (1 - rate) / 2
          else 0)"
      by (elim exE conjE) (rule that, assumption, (intro conjI; assumption))
    have rr: "r' = r" using r c by simp
    note f = g[unfolded rr]
    from f have "ri_region r = fst k" and "ri_instance_type r = snd k"
      by (rule conjunct1, rule conjunct2[THEN conjunct1])
    then have "(ri_region r, ri_instance_type r) = k" by simp
    with vs have members: "filter (\<lambda>a. (region a, instance_type a)
          = (ri_region r, ri_instance_type r)) analysis_results = vs" by simp
    show ?thesis
      unfolding Let_def members using f ne by (simp only: simp_thms)
  qed
  show ?thesis
  proof (intro exI conjI)
    show "ri_generate_recommendations self analysis_results = Inr recs" by (rule gen)
    show "distinct (map (\<lambda>r. (ri_region r, ri_instance_type r)) recs)"
      using dk by (rule conjunct1)
    show "set (map (\<lambda>r. (ri_region r, ri_instance_type r)) recs)
         = (\<lambda>a. (region a, instance_type a)) ` set analysis_results"
      using dk kG by (simp only:)
    show "\<forall>r \<in> set recs.
          let members = filter (\<lambda>a. (region a, instance_type a)
                                      = (ri_region r, ri_instance_type r)) analysis_results;
              aggregate = sum_list (map current_cost members)
          in members \<noteq> []
           \<and> instance_count r = length members
           \<and> instances r
               = map (\<lambda>a. \<lparr>member_instance_id = instance_id a, member_name = name a\<rparr>) members
           \<and> ri_current_monthly_cost r = aggregate
           \<and> ri_monthly_cost r = aggregate * (1 - rate)
           \<and> ri_monthly_savings r = aggregate - ri_monthly_cost r
           \<and> ri_annual_savings r = ri_monthly_savings r * 12
           \<and> total_savings_over_term r = ri_annual_savings r * of_int (term_years self)
           \<and> upfront_payment r =
               (if payment_option self = ''all_upfront''
                then aggregate * 12 * of_int (term_years self) * (1 - rate)
                else if payment_option self = ''partial_upfront''
                then aggregate * 12 * of_int (term_years self) * (1 - rate) / 2
                else 0)"
      using fields by (rule ballI)
  qed
qed

text \<open>Three \<open>m5.large\<close> in \<open>us-east-1\<close> at 70 each, one year, all upfront (rate 0.40): aggregate 210, discounted 126, savings 84 a month and 1008 a year, upfront 1512.\<close>

theorem C3_reserved_witness:
  "discount_rates (term_years example_ri_recommender)
     = Some (map_of [(''all_upfront'', 40 / 100), (''partial_upfront'', 35 / 100),
                     (''no_upfront'', 30 / 100)])
   \<and> map_of [(''all_upfront'', 40 / 100), (''partial_upfront'', 35 / 100),
             (''no_upfront'', 30 / 100 :: rat)] (payment_option example_ri_recommender)
     = Some (40 / 100)
   \<and> ri_generate_recommendations example_ri_recommender
       [example_analysis ''i-1'' ''m5.large'' 70 None,
        example_analysis ''i-2'' ''m5.large'' 70 None,
        example_analysis ''i-3'' ''m5.large'' 70 None]
     = Inr [\<lparr>ri_region = ''us-east-1'', ri_instance_type = ''m5.large'',
             instance_count = 3, ri_term_years = 1, ri_payment_option = ''all_upfront'',
             ri_current_monthly_cost = 210, ri_monthly_cost = 126,
             ri_monthly_savings = 84, ri_annual_savings = 1008,
             total_savings_over_term = 1008, upfront_payment = 1512,
             discount_rate = 40,
             instances = [\<lparr>member_instance_id = ''i-1'', member_name = ''web''\<rparr>,
                          \<lparr>member_instance_id = ''i-2'', member_name = ''web''\<rparr>,
                          \<lparr>member_instance_id = ''i-3'', member_name = ''web''\<rparr>]\<rparr>]"
  (is "?h1 \<and> ?h2 \<and> ?gen = Inr [?r]")
proof -
  have h1: ?h1 by (simp add: discount_rates_def example_ri_recommender_def)
  have h2: ?h2 by (simp add: example_ri_recommender_def)
  have ev: "?gen = Inr [?r]" by (simp add: ri_defs)
  from C3_reserved[OF h1 h2, of "[example_analysis ''i-1'' ''m5.large'' 70 None,
        example_analysis ''i-2'' ''m5.large'' 70 None,
        example_analysis ''i-3'' ''m5.large'' 70 None]"]
  obtain recs where "?gen = Inr recs" by (elim exE conjE)
  with ev h1 h2 show ?thesis by (simp only: simp_thms)
qed

section \<open>Properties of \<open>CostOptimizer\<close>\<close>

lemma sum_list_map_mset:
  fixes f :: "'a \<Rightarrow> rat"
  assumes "mset xs = mset ys"
  shows "sum_list (map f xs) = sum_list (map f ys)"
proof -
  have "sum_mset (mset (map f xs)) = sum_mset (mset (map f ys))"
    using assms by (metis mset_map)
  then show ?thesis by (simp only: sum_mset_sum_list)
qed

lemma length_mset_eq: "mset xs = mset ys \<Longrightarrow> length xs = length ys"
  by (metis size_mset)

text \<open>
  Claim C2, as stated, has \<open>total.annual_savings\<close> sum the stored \<open>annual_savings\<close> of
  both lists. \<open>calculate_total_savings\<close> computes the right-sizing part as the sum of
  \<open>monthly_savings\<close> times 12 and never reads a right-sizing recommendation's
  \<open>annual_savings\<close>: for one right-sizing recommendation that stores monthly savings 10
  and annual savings 100 the total is 120, not 100 (no operation rounds on these
  numbers).
\<close>

theorem C2_counterexample:
  "total_annual_savings (total (calculate_total_savings exact_ops
      [\<lparr>rec_instance_id = ''i-1'', rec_name = ''web'', rec_region = ''us-east-1'',
        current_type = ''m5.xlarge'', recommended_type = ''m5.large'',
        strategy = ''downsize'', reason = Downsize_reason 10,
        current_monthly_cost = 100, recommended_monthly_cost = 90,
        monthly_savings = 10, annual_savings = 100,
        rec_cpu_utilization = \<lparr>average = 5, p95 = 10, max_cpu = 20\<rparr>\<rparr>] [])) = 120
   \<and> sum_list (map annual_savings
      [\<lparr>rec_instance_id = ''i-1'', rec_name = ''web'', rec_region = ''us-east-1'',
        current_type = ''m5.xlarge'', recommended_type = ''m5.large'',
        strategy = ''downsize'', reason = Downsize_reason 10,
        current_monthly_cost = 100, recommended_monthly_cost = 90,
        monthly_savings = 10, annual_savings = 100,
        rec_cpu_utilization = \<lparr>average = 5, p95 = 10, max_cpu = 20\<rparr>\<rparr>])
     + sum_list (map ri_annual_savings []) = 100"
  by (simp add: calculate_total_savings_def exact_ops_def)

text \<open>
  Claim C2, as the code has it, for whatever the float operations compute:
  \<open>total.monthly_savings\<close> is the float sum of the stored right-sizing \<open>monthly_savings\<close>
  plus the float sum of the stored reserved \<open>monthly_savings\<close>; \<open>total.annual_savings\<close> is
  the float sum of the stored right-sizing \<open>monthly_savings\<close> times 12, plus the float sum
  of the stored reserved \<open>annual_savings\<close>; and of the right-sizing list only the
  \<open>monthly_savings\<close> fields are read. Where none of these operations rounds, the totals
  are the exact sums, \<open>total.annual_savings\<close> is the sum of the stored \<open>annual_savings\<close> of
  both lists provided every right-sizing recommendation has
  \<open>annual_savings = 12 * monthly_savings\<close>, and the summary is the same for the lists in
  any other order on which no operation rounds either.
\<close>

theorem C2_totals:
  "total_monthly_savings (total (calculate_total_savings fl ec2 ri))
     = fl_add fl (fl_sum fl (map monthly_savings ec2)) (fl_sum fl (map ri_monthly_savings ri))
   \<and> total_annual_savings (total (calculate_total_savings fl ec2 ri))
     = fl_add fl (fl_mul fl (fl_sum fl (map monthly_savings ec2)) 12)
         (fl_sum fl (map ri_annual_savings ri))
   \<and> (map monthly_savings ec2' = map monthly_savings ec2 \<longrightarrow>
        calculate_total_savings fl ec2' ri = calculate_total_savings fl ec2 ri)
   \<and> (no_rounding fl ec2 ri \<longrightarrow>
        total_monthly_savings (total (calculate_total_savings fl ec2 ri))
          = sum_list (map monthly_savings ec2) + sum_list (map ri_monthly_savings ri)
        \<and> total_annual_savings (total (calculate_total_savings fl ec2 ri))
          = 12 * sum_list (map monthly_savings ec2) + sum_list (map ri_annual_savings ri))
   \<and> (no_rounding fl ec2 ri \<and> (\<forall>r \<in> set ec2. annual_savings r = 12 * monthly_savings r) \<longrightarrow>
        total_annual_savings (total (calculate_total_savings fl ec2 ri))
          = sum_list (map annual_savings ec2) + sum_list (map ri_annual_savings ri))
   \<and> (no_rounding fl ec2 ri \<and> no_rounding fl ec2' ri'
        \<and> mset ec2' = mset ec2 \<and> mset ri' = mset ri \<longrightarrow>
        calculate_total_savings fl ec2' ri' = calculate_total_savings fl ec2 ri)"
proof (intro conjI impI)
  show "total_monthly_savings (total (calculate_total_savings fl ec2 ri))
     = fl_add fl (fl_sum fl (map monthly_savings ec2)) (fl_sum fl (map ri_monthly_savings ri))"
    by (simp add: calculate_total_savings_def Let_def)
  show "total_annual_savings (total (calculate_total_savings fl ec2 ri))
     = fl_add fl (fl_mul fl (fl_sum fl (map monthly_savings ec2)) 12)
         (fl_sum fl (map ri_annual_savings ri))"
    by (simp add: calculate_total_savings_def Let_def)
next
  assume same: "map monthly_savings ec2' = map monthly_savings ec2"
  then have "length ec2' = length ec2" by (rule map_eq_imp_length_eq)
  with same show "calculate_total_savings fl ec2' ri = calculate_total_savings fl ec2 ri"
    by (simp add: calculate_total_savings_def Let_def)
next
  assume nr: "no_rounding fl ec2 ri"
  then show "total_monthly_savings (total (calculate_total_savings fl ec2 ri))
          = sum_list (map monthly_savings ec2) + sum_list (map ri_monthly_savings ri)"
    by (simp add: no_rounding_def calculate_total_savings_def Let_def)
  from nr show "total_annual_savings (total (calculate_total_savings fl ec2 ri))
          = 12 * sum_list (map monthly_savings ec2) + sum_list (map ri_annual_savings ri)"
    by (simp add: no_rounding_def calculate_total_savings_def Let_def)
next
  assume "no_rounding fl ec2 ri \<and> (\<forall>r \<in> set ec2. annual_savings r = 12 * monthly_savings r)"
  then have nr: "no_rounding fl ec2 ri"
    and inv: "\<forall>r \<in> set ec2. annual_savings r = 12 * monthly_savings r" by simp_all
  from inv have "sum_list (map annual_savings ec2) = 12 * sum_list (map monthly_savings ec2)"
    by (induction ec2) (simp_all add: algebra_simps)
  with nr show "total_annual_savings (total (calculate_total_savings fl ec2 ri))
          = sum_list (map annual_savings ec2) + sum_list (map ri_annual_savings ri)"
    by (simp add: no_rounding_def calculate_total_savings_def Let_def)
next
  assume "no_rounding fl ec2 ri \<and> no_rounding fl ec2' ri'
        \<and> mset ec2' = mset ec2 \<and> mset ri' = mset ri"
  then have nr: "no_rounding fl ec2 ri" and nr': "no_rounding fl ec2' ri'"
    and e: "mset ec2' = mset ec2" and r: "mset ri' = mset ri" by simp_all
  have s1: "sum_list (map monthly_savings ec2') = sum_list (map monthly_savings ec2)"
    by (rule sum_list_map_mset[OF e])
  have s2: "sum_list (map ri_monthly_savings ri') = sum_list (map ri_monthly_savings ri)"
    by (rule sum_list_map_mset[OF r])
  have s3: "sum_list (map ri_annual_savings ri') = sum_list (map ri_annual_savings ri)"
    by (rule sum_list_map_mset[OF r])
  from nr nr' show "calculate_total_savings fl ec2' ri' = calculate_total_savings fl ec2 ri"
    by (simp add: no_rounding_def calculate_total_savings_def Let_def s1 s2 s3
          length_mset_eq[OF e] length_mset_eq[OF r])
qed

text \<open>
  Two right-sizing recommendations (savings 10 and 20 a month) in either order and one
  reserved recommendation (84 a month, 1008 a year): no operation rounds.
\<close>

theorem C2_totals_witness:
  "no_rounding exact_ops [example_rec ''us-east-1'' 10, example_rec ''us-west-2'' 20]
     [example_ri_rec ''us-east-1'' 3]
   \<and> no_rounding exact_ops [example_rec ''us-west-2'' 20, example_rec ''us-east-1'' 10]
     [example_ri_rec ''us-east-1'' 3]
   \<and> mset [example_rec ''us-west-2'' 20, example_rec ''us-east-1'' 10]
     = mset [example_rec ''us-east-1'' 10, example_rec ''us-west-2'' 20]
   \<and> mset [example_ri_rec ''us-east-1'' 3] = mset [example_ri_rec ''us-east-1'' 3]
   \<and> calculate_total_savings exact_ops
        [example_rec ''us-west-2'' 20, example_rec ''us-east-1'' 10]
        [example_ri_rec ''us-east-1'' 3]
     = calculate_total_savings exact_ops
        [example_rec ''us-east-1'' 10, example_rec ''us-west-2'' 20]
        [example_ri_rec ''us-east-1'' 3]
   \<and> annual_savings (example_rec ''us-east-1'' 10)
       = 12 * monthly_savings (example_rec ''us-east-1'' 10)
   \<and> annual_savings (example_rec ''us-west-2'' 20)
       = 12 * monthly_savings (example_rec ''us-west-2'' 20)
   \<and> total_monthly_savings (total (calculate_total_savings exact_ops
        [example_rec ''us-east-1'' 10, example_rec ''us-west-2'' 20]
        [example_ri_rec ''us-east-1'' 3])) = 10 + 20 + 84
   \<and> total_annual_savings (total (calculate_total_savings exact_ops
        [example_rec ''us-east-1'' 10, example_rec ''us-west-2'' 20]
        [example_ri_rec ''us-east-1'' 3])) = 120 + 240 + 1008
   \<and> map monthly_savings [(example_rec ''us-east-1'' 10)\<lparr>annual_savings := 0\<rparr>]
       = map monthly_savings [example_rec ''us-east-1'' 10]
   \<and> calculate_total_savings exact_ops
        [(example_rec ''us-east-1'' 10)\<lparr>annual_savings := 0\<rparr>] []
     = calculate_total_savings exact_ops [example_rec ''us-east-1'' 10] []"
proof -
  let ?ec2 = "[example_rec ''us-east-1'' 10, example_rec ''us-west-2'' 20]"
  let ?ec2' = "[example_rec ''us-west-2'' 20, example_rec ''us-east-1'' 10]"
  let ?ri = "[example_ri_rec ''us-east-1'' 3]"
  have n1: "no_rounding exact_ops ?ec2 ?ri"
    by (simp add: no_rounding_def exact_ops_def)
  have n2: "no_rounding exact_ops ?ec2' ?ri"
    by (simp add: no_rounding_def exact_ops_def)
  have p1: "mset ?ec2' = mset ?ec2" by (simp add: add.commute)
  have p2: "mset ?ri = mset ?ri" by simp
  have inv: "\<forall>r \<in> set ?ec2. annual_savings r = 12 * monthly_savings r"
    by (simp add: example_rec_def)
  have sums: "sum_list (map annual_savings ?ec2) + sum_list (map ri_annual_savings ?ri)
      = 120 + 240 + 1008"
    by (simp add: example_rec_def example_ri_rec_def)
  have msum: "sum_list (map monthly_savings ?ec2) + sum_list (map ri_monthly_savings ?ri)
      = 10 + 20 + 84"
    by (simp add: example_rec_def example_ri_rec_def)
  have same: "map monthly_savings [(example_rec ''us-east-1'' 10)\<lparr>annual_savings := 0\<rparr>]
       = map monthly_savings [example_rec ''us-east-1'' 10]"
    by simp
  from C2_totals[of exact_ops ?ec2 ?ri ?ec2' ?ri] n1 n2 p1 p2 inv
  have a: "calculate_total_savings exact_ops ?ec2' ?ri = calculate_total_savings exact_ops ?ec2 ?ri"
    and b: "total_annual_savings (total (calculate_total_savings exact_ops ?ec2 ?ri))
          = sum_list (map annual_savings ?ec2) + sum_list (map ri_annual_savings ?ri)"
    and c: "total_monthly_savings (total (calculate_total_savings exact_ops ?ec2 ?ri))
          = sum_list (map monthly_savings ?ec2) + sum_list (map ri_monthly_savings ?ri)"
    by blast+
  from C2_totals[of exact_ops "[example_rec ''us-east-1'' 10]" "[]"
        "[(example_rec ''us-east-1'' 10)\<lparr>annual_savings := 0\<rparr>]" "[]"] same
  have d: "calculate_total_savings exact_ops
        [(example_rec ''us-east-1'' 10)\<lparr>annual_savings := 0\<rparr>] []
     = calculate_total_savings exact_ops [example_rec ''us-east-1'' 10] []"
    by blast
  have i1: "annual_savings (example_rec ''us-east-1'' 10)
       = 12 * monthly_savings (example_rec ''us-east-1'' 10)"
    and i2: "annual_savings (example_rec ''us-west-2'' 20)
       = 12 * monthly_savings (example_rec ''us-west-2'' 20)"
    using inv by simp_all
  from n1 n2 p1 p2 a i1 i2 b c d sums msum same show ?thesis
    by (simp only: simp_thms)
qed

lemma map_of_add_count:
  "map_of (add_count k n d) g =
     (if g = k then Some ((case map_of d k of None \<Rightarrow> 0 | Some v \<Rightarrow> v) + n) else map_of d g)"
  by (induction d) auto

lemma count_add_count:
  "(case map_of (add_count k n d) g of None \<Rightarrow> 0 | Some v \<Rightarrow> v)
     = (case map_of d g of None \<Rightarrow> 0 | Some v \<Rightarrow> v) + (if g = k then n else 0)"
  by (simp add: map_of_add_count)

lemma keys_add_count: "fst ` set (add_count k n d) = insert k (fst ` set d)"
proof (induction d)
  case Nil show ?case by simp
next
  case (Cons x d)
  obtain k' v where x: "x = (k', v)" by (cases x)
  show ?case
  proof (cases "k' = k")
    case True with x show ?thesis by simp
  next
    case False with x Cons.IH show ?thesis by (simp add: insert_commute)
  qed
qed

lemma distinct_add_count:
  "distinct (map fst d) \<Longrightarrow> distinct (map fst (add_count k n d))"
proof (induction d)
  case Nil show ?case by simp
next
  case (Cons x d)
  obtain k' v where x: "x = (k', v)" by (cases x)
  show ?case
  proof (cases "k' = k")
    case True with x Cons.prems show ?thesis by simp
  next
    case False
    with x Cons show ?thesis by (simp add: keys_add_count)
  qed
qed

lemma distinct_foldl_add_count:
  "distinct (map fst d) \<Longrightarrow>
   distinct (map fst (foldl (\<lambda>d r. add_count (key r) (w r) d) d rs))"
  by (induction rs arbitrary: d) (simp_all add: distinct_add_count)

lemma keys_foldl_add_count:
  "fst ` set (foldl (\<lambda>d r. add_count (key r) (w r) d) d rs)
     = fst ` set d \<union> key ` set rs"
  by (induction rs arbitrary: d) (simp_all add: keys_add_count)

lemma count_foldl_add_count:
  "(case map_of (foldl (\<lambda>d r. add_count (key r) (w r) d) d rs) g of None \<Rightarrow> 0 | Some v \<Rightarrow> v)
     = (case map_of d g of None \<Rightarrow> 0 | Some v \<Rightarrow> v)
       + sum_list (map w (filter (\<lambda>r. key r = g) rs))"
proof (induction rs arbitrary: d)
  case Nil show ?case by simp
next
  case (Cons r rs)
  have "(case map_of (foldl (\<lambda>d r. add_count (key r) (w r) d) d (r # rs)) g of
           None \<Rightarrow> 0 | Some v \<Rightarrow> v)
        = (case map_of (add_count (key r) (w r) d) g of None \<Rightarrow> 0 | Some v \<Rightarrow> v)
          + sum_list (map w (filter (\<lambda>r. key r = g) rs))"
    using Cons.IH[of "add_count (key r) (w r) d"] by simp
  also have "\<dots> = (case map_of d g of None \<Rightarrow> 0 | Some v \<Rightarrow> v)
          + (if g = key r then w r else 0)
          + sum_list (map w (filter (\<lambda>r. key r = g) rs))"
    by (simp only: count_add_count)
  also have "\<dots> = (case map_of d g of None \<Rightarrow> 0 | Some v \<Rightarrow> v)
          + sum_list (map w (filter (\<lambda>r. key r = g) (r # rs)))"
    by auto
  finally show ?case .
qed

lemma map_of_by_count:
  "map_of d g =
     (if g \<in> fst ` set d then Some (case map_of d g of None \<Rightarrow> 0 | Some v \<Rightarrow> v) else None)"
proof (cases "map_of d g")
  case None
  then show ?thesis by (simp add: map_of_eq_None_iff)
next
  case (Some v)
  then have "g \<in> fst ` set d" by (metis map_of_eq_None_iff option.distinct(1))
  with Some show ?thesis by simp
qed

text \<open>
  Claim C7: in \<open>by_region\<close> of the stats, a region has an entry exactly when some
  recommendation of either list names it, and its count is the number of right-sizing
  recommendations of that region plus, for every reserved recommendation of that region,
  the number of its member instances.
\<close>
theorem C7_region_counts:
  "distinct (map fst (by_region (get_summary_stats ec2 ri)))
   \<and> map_of (by_region (get_summary_stats ec2 ri)) g =
     (if g \<in> rec_region ` set ec2 \<union> ri_region ` set ri
      then Some (length (filter (\<lambda>r. rec_region r = g) ec2)
                 + sum_list (map (\<lambda>r. length (instances r))
                              (filter (\<lambda>r. ri_region r = g) ri)))
      else None)"
proof
  show "distinct (map fst (by_region (get_summary_stats ec2 ri)))"
    by (simp add: get_summary_stats_def Let_def distinct_foldl_add_count)
next
  let ?regions = "foldl (\<lambda>d r. add_count (rec_region r) 1 d) [] ec2"
  let ?d = "foldl (\<lambda>d r. add_count (ri_region r) (length (instances r)) d) ?regions ri"
  have d: "by_region (get_summary_stats ec2 ri) = ?d"
    by (simp add: get_summary_stats_def Let_def)
  have ones: "sum_list (map (\<lambda>r. 1) (filter (\<lambda>r. rec_region r = g) ec2))
        = length (filter (\<lambda>r. rec_region r = g) ec2)"
    by (simp add: sum_list_triv)
  have keys: "fst ` set ?d = rec_region ` set ec2 \<union> ri_region ` set ri"
    by (simp add: keys_foldl_add_count)
  have "(case map_of ?regions g of None \<Rightarrow> 0 | Some v \<Rightarrow> v)
          = length (filter (\<lambda>r. rec_region r = g) ec2)"
    using count_foldl_add_count[of rec_region "\<lambda>r. 1" "[]" ec2 g] ones by simp
  then have cnt: "(case map_of ?d g of None \<Rightarrow> 0 | Some v \<Rightarrow> v)
          = length (filter (\<lambda>r. rec_region r = g) ec2)
            + sum_list (map (\<lambda>r. length (instances r)) (filter (\<lambda>r. ri_region r = g) ri))"
    by (simp only: count_foldl_add_count)
  have "map_of ?d g =
      (if g \<in> fst ` set ?d then Some (case map_of ?d g of None \<Rightarrow> 0 | Some v \<Rightarrow> v) else None)"
    by (rule map_of_by_count)
  also have "\<dots> =
     (if g \<in> rec_region ` set ec2 \<union> ri_region ` set ri
      then Some (length (filter (\<lambda>r. rec_region r = g) ec2)
                 + sum_list (map (\<lambda>r. length (instances r))
                              (filter (\<lambda>r. ri_region r = g) ri)))
      else None)"
    by (simp only: keys cnt)
  finally show "map_of (by_region (get_summary_stats ec2 ri)) g =
     (if g \<in> rec_region ` set ec2 \<union> ri_region ` set ri
      then Some (length (filter (\<lambda>r. rec_region r = g) ec2)
                 + sum_list (map (\<lambda>r. length (instances r))
                              (filter (\<lambda>r. ri_region r = g) ri)))
      else None)"
    by (simp only: d)
qed

text \<open>One reserved recommendation with five members counts 5 for its region; a right-sizing recommendation of the same region adds 1.\<close>

theorem C7_region_counts_witness:
  "map_of (by_region (get_summary_stats [] [example_ri_rec ''us-east-1'' 5])) ''us-east-1''
     = Some 5
   \<and> map_of (by_region (get_summary_stats
        [example_rec ''us-east-1'' 10, example_rec ''us-west-2'' 20]
        [example_ri_rec ''us-east-1'' 5])) ''us-east-1''
     = Some 6
   \<and> map_of (by_region (get_summary_stats
        [example_rec ''us-east-1'' 10, example_rec ''us-west-2'' 20]
        [example_ri_rec ''us-east-1'' 5])) ''eu-west-1''
     = None"
proof -
  let ?ec2 = "[example_rec ''us-east-1'' 10, example_rec ''us-west-2'' 20]"
  let ?ri = "[example_ri_rec ''us-east-1'' 5]"
  have 1: "map_of (by_region (get_summary_stats [] ?ri)) ''us-east-1'' = Some 5"
    using C7_region_counts[of "[]" ?ri "''us-east-1''"]
    by (simp add: example_ri_rec_def)
  have 2: "map_of (by_region (get_summary_stats ?ec2 ?ri)) ''us-east-1'' = Some 6"
    using C7_region_counts[of ?ec2 ?ri "''us-east-1''"]
    by (simp add: example_ri_rec_def example_rec_def)
  have 3: "map_of (by_region (get_summary_stats ?ec2 ?ri)) ''eu-west-1'' = None"
    using C7_region_counts[of ?ec2 ?ri "''eu-west-1''"]
    by (simp add: example_ri_rec_def example_rec_def)
  from 1 2 3 show ?thesis by (simp only: simp_thms)
qed

section \<open>Properties of \<open>_percentile\<close>\<close>

lemma py_getitem_in_range:
  "0 \<le> i \<Longrightarrow> i < int (length xs) \<Longrightarrow> py_getitem xs i = Inr (xs ! nat i)"
  by (simp add: py_getitem_def)

lemma index_bounds:
  fixes p :: rat and n :: nat
  assumes "0 < n" "0 \<le> p" "p \<le> 100"
  shows "0 \<le> (of_nat n - 1) * p / 100" and "(of_nat n - 1) * p / 100 \<le> of_nat n - 1"
proof -
  have n1: "(0::rat) \<le> of_nat n - 1" using assms(1) by (simp add: Suc_le_eq)
  show "0 \<le> (of_nat n - 1) * p / 100" using n1 assms(2) by simp
  have "(of_nat n - 1) * p \<le> (of_nat n - 1) * 100"
    using n1 assms(3) by (rule mult_left_mono[rotated])
  then show "(of_nat n - 1) * p / 100 \<le> of_nat n - 1" by simp
qed

text \<open>
  Claim C9: for a non-empty list of values and \<open>0 \<le> p \<le> 100\<close>, \<open>_percentile\<close> returns
  the value of the specification's formula; there \<open>floor(i)\<close> and \<open>ceil(i)\<close> are valid
  indices, so the result is
  \<open>v[floor(i)] + (i - floor(i)) * (v[ceil(i)] - v[floor(i)])\<close> with \<open>v\<close> the sorted values
  and \<open>i = (n-1)*p/100\<close>.
\<close>
theorem C9_percentile:
  assumes "data \<noteq> []" and "0 \<le> p" and "p \<le> 100"
  shows "percentile data p = Inr (spec_percentile data p)
     \<and> (let v = sort data; i = (of_nat (length v) - 1) * p / 100
        in 0 \<le> \<lfloor>i\<rfloor> \<and> \<lceil>i\<rceil> < int (length v)
           \<and> spec_percentile data p
               = v ! nat \<lfloor>i\<rfloor> + (i - of_int \<lfloor>i\<rfloor>) * (v ! nat \<lceil>i\<rceil> - v ! nat \<lfloor>i\<rfloor>))"
proof -
  define v where "v = sort data"
  define n where "n = length v"
  define i :: rat where "i = (of_nat n - 1) * p / 100"
  have npos: "0 < n" using assms(1) by (simp add: n_def v_def)
  have i0: "0 \<le> i" and iN: "i \<le> of_nat n - 1"
    using index_bounds[OF npos assms(2,3)] by (simp_all add: i_def)
  have f0: "0 \<le> \<lfloor>i\<rfloor>" using i0 by simp
  have "i \<le> of_int (int n - 1)" using iN by simp
  then have cN: "\<lceil>i\<rceil> \<le> int n - 1" by (simp only: ceiling_le_iff)
  have fc: "\<lfloor>i\<rfloor> \<le> \<lceil>i\<rceil>" by (rule floor_le_ceiling)
  have fN: "\<lfloor>i\<rfloor> < int n" using fc cN by linarith
  have pyint: "py_int i = \<lfloor>i\<rfloor>" using i0 by (simp add: py_int_def)
  have spec: "spec_percentile data p
      = v ! nat \<lfloor>i\<rfloor> + (i - of_int \<lfloor>i\<rfloor>) * (v ! nat \<lceil>i\<rceil> - v ! nat \<lfloor>i\<rfloor>)"
    using cN by (simp add: spec_percentile_def Let_def v_def[symmetric] n_def[symmetric] i_def[symmetric])
  have code: "percentile data p
      = Inr (v ! nat \<lfloor>i\<rfloor> + (i - of_int \<lfloor>i\<rfloor>) * (v ! nat \<lceil>i\<rceil> - v ! nat \<lfloor>i\<rfloor>))"
  proof (cases "i = of_int \<lfloor>i\<rfloor>")
    case True
    then have ce: "\<lceil>i\<rceil> = \<lfloor>i\<rfloor>" by (metis ceiling_of_int)
    have zero: "i - of_int \<lfloor>i\<rfloor> = 0" using True by simp
    have get: "py_getitem v \<lfloor>i\<rfloor> = Inr (v ! nat \<lfloor>i\<rfloor>)"
      using f0 fN by (simp add: py_getitem_in_range n_def)
    show ?thesis
    proof (cases "\<lfloor>i\<rfloor> + 1 \<ge> int n")
      case True
      then show ?thesis
        using assms(1) get zero
        by (simp add: percentile_def Let_def v_def[symmetric] n_def[symmetric]
              i_def[symmetric] pyint)
    next
      case False
      then have "py_getitem v (\<lfloor>i\<rfloor> + 1) = Inr (v ! nat (\<lfloor>i\<rfloor> + 1))"
        using f0 by (simp add: py_getitem_in_range n_def)
      then show ?thesis
        using False assms(1) get zero
        by (simp add: percentile_def Let_def v_def[symmetric] n_def[symmetric]
              i_def[symmetric] pyint)
    qed
  next
    case False
    then have ce: "\<lceil>i\<rceil> = \<lfloor>i\<rfloor> + 1" by (simp add: ceiling_altdef)
    have lt: "\<lfloor>i\<rfloor> + 1 < int n" using ce cN by linarith
    have get: "py_getitem v \<lfloor>i\<rfloor> = Inr (v ! nat \<lfloor>i\<rfloor>)"
      using f0 fN by (simp add: py_getitem_in_range n_def)
    have get': "py_getitem v (\<lfloor>i\<rfloor> + 1) = Inr (v ! nat (\<lfloor>i\<rfloor> + 1))"
      using f0 lt by (simp add: py_getitem_in_range n_def)
    show ?thesis
      using lt assms(1) get get' ce
      by (simp add: percentile_def Let_def v_def[symmetric] n_def[symmetric]
            i_def[symmetric] pyint)
  qed
  have clt: "\<lceil>i\<rceil> < int n" using cN by linarith
  show ?thesis
    unfolding Let_def v_def[symmetric] n_def[symmetric] i_def[symmetric]
    using f0 clt spec code by (simp only: simp_thms)
qed

text \<open>The values \<open>[10, 20, 30, 40]\<close> and \<open>p = 95\<close> give \<open>38.5\<close>.\<close>

theorem C9_percentile_witness:
  "[10, 20, 30, 40 :: rat] \<noteq> [] \<and> (0 :: rat) \<le> 95 \<and> (95 :: rat) \<le> 100
   \<and> percentile [10, 20, 30, 40] 95 = Inr (77 / 2)"
proof -
  have h1: "[10, 20, 30, 40 :: rat] \<noteq> []" by simp
  have h2: "(0 :: rat) \<le> 95" by simp
  have h3: "(95 :: rat) \<le> 100" by simp
  have fl: "\<lfloor>57 / 20 :: rat\<rfloor> = 2" by (simp add: floor_eq_iff)
  have ce: "\<lceil>57 / 20 :: rat\<rceil> = 3" by (simp add: ceiling_eq_iff)
  have "spec_percentile [10, 20, 30, 40] 95 = 77 / 2"
    by (simp add: spec_percentile_def fl ce)
  with C9_percentile[OF h1 h2 h3] show ?thesis by simp
qed

end
